theory Spec2Isabelle
  imports Complex_Main
begin

section \<open>Numbers, vectors and the engine state\<close>

text \<open>
  The geometry kernel (\<^verbatim>\<open>src/spaceEngine.ts\<close>) and the measuring helpers of the
  application (\<^verbatim>\<open>App.tsx\<close>) compute on JavaScript numbers. They are modelled here as
  mathematical reals: \<^verbatim>\<open>Math.sqrt\<close>, \<^verbatim>\<open>Math.cos\<close>, \<^verbatim>\<open>Math.sin\<close>,
  \<^verbatim>\<open>Math.acos\<close>, \<^verbatim>\<open>Math.acosh\<close>, \<^verbatim>\<open>Math.exp\<close> are the real functions,
  \<^verbatim>\<open>Math.PI\<close> is \<open>pi\<close>. Rounding and signed zeros are outside the model. The two places
  where the code meets \<^verbatim>\<open>Infinity\<close> are kept: the \<^verbatim>\<open>Infinity\<close> that
  \<^verbatim>\<open>distanceExact\<close> returns on purpose is a value of its own, and so is the overflow of
  \<^verbatim>\<open>Math.exp\<close> in the engine's \<^verbatim>\<open>tanh\<close>, which turns the result of \<^verbatim>\<open>tanh\<close> into
  \<^verbatim>\<open>NaN\<close>.
\<close>

datatype SpaceId = E | H | S

record Vec2 =
  x2 :: real
  y2 :: real

record Vec3 =
  x3 :: real
  y3 :: real
  z3 :: real

text \<open>A number that may be the literal \<^verbatim>\<open>Infinity\<close>.\<close>

datatype xnumber = Fin real | Infinity

text \<open>\<^verbatim>\<open>v || 1\<close> on numbers: \<open>0\<close> is falsy.\<close>

definition or1 :: "real \<Rightarrow> real" where
  "or1 v = (if v = 0 then 1 else v)"

text \<open>\<^verbatim>\<open>Math.hypot\<close> with two and with three arguments.\<close>

definition hypot :: "real \<Rightarrow> real \<Rightarrow> real" where
  "hypot a b = sqrt (a * a + b * b)"

definition hypot3d :: "real \<Rightarrow> real \<Rightarrow> real \<Rightarrow> real" where
  "hypot3d a b c = sqrt (a * a + b * b + c * c)"

text \<open>
  \<^verbatim>\<open>Math.atan2(y, x)\<close>: the angle of the point \<open>(x, y)\<close> in \<open>(-pi, pi]\<close>, and \<open>0\<close> at the
  origin.
\<close>

definition atan2 :: "real \<Rightarrow> real \<Rightarrow> real" where
  "atan2 b a =
     (if 0 < a then arctan (b / a)
      else if a < 0 \<and> 0 \<le> b then arctan (b / a) + pi
      else if a < 0 \<and> b < 0 then arctan (b / a) - pi
      else if 0 < b then pi / 2
      else if b < 0 then - (pi / 2)
      else 0)"

text \<open>\<^verbatim>\<open>const clamp = (v, a, b) => Math.max(a, Math.min(b, v))\<close>\<close>

definition clamp :: "real \<Rightarrow> real \<Rightarrow> real \<Rightarrow> real" where
  "clamp v a b = max a (min b v)"

subsection \<open>Vector helpers of the engine\<close>

definition hypot2 :: "Vec2 \<Rightarrow> real" where
  "hypot2 v = hypot (x2 v) (y2 v)"

definition add2 :: "Vec2 \<Rightarrow> Vec2 \<Rightarrow> Vec2" where
  "add2 a b = \<lparr>x2 = x2 a + x2 b, y2 = y2 a + y2 b\<rparr>"

definition sub2 :: "Vec2 \<Rightarrow> Vec2 \<Rightarrow> Vec2" where
  "sub2 a b = \<lparr>x2 = x2 a - x2 b, y2 = y2 a - y2 b\<rparr>"

definition mul2 :: "Vec2 \<Rightarrow> real \<Rightarrow> Vec2" where
  "mul2 a k = \<lparr>x2 = x2 a * k, y2 = y2 a * k\<rparr>"

definition dot2 :: "Vec2 \<Rightarrow> Vec2 \<Rightarrow> real" where
  "dot2 a b = x2 a * x2 b + y2 a * y2 b"

definition norm2 :: "Vec2 \<Rightarrow> Vec2" where
  "norm2 a = (let n = hypot2 a in if 0 < n then mul2 a (1 / n) else \<lparr>x2 = 1, y2 = 0\<rparr>)"

definition dot3 :: "Vec3 \<Rightarrow> Vec3 \<Rightarrow> real" where
  "dot3 a b = x3 a * x3 b + y3 a * y3 b + z3 a * z3 b"

definition hypot3 :: "Vec3 \<Rightarrow> real" where
  "hypot3 v = hypot3d (x3 v) (y3 v) (z3 v)"

definition mul3 :: "Vec3 \<Rightarrow> real \<Rightarrow> Vec3" where
  "mul3 v k = \<lparr>x3 = x3 v * k, y3 = y3 v * k, z3 = z3 v * k\<rparr>"

definition add3 :: "Vec3 \<Rightarrow> Vec3 \<Rightarrow> Vec3" where
  "add3 a b = \<lparr>x3 = x3 a + x3 b, y3 = y3 a + y3 b, z3 = z3 a + z3 b\<rparr>"

definition norm3 :: "Vec3 \<Rightarrow> Vec3" where
  "norm3 v = (let n = hypot3 v in if 0 < n then mul3 v (1 / n) else \<lparr>x3 = 1, y3 = 0, z3 = 0\<rparr>)"

definition cross3 :: "Vec3 \<Rightarrow> Vec3 \<Rightarrow> Vec3" where
  "cross3 a b =
     \<lparr>x3 = y3 a * z3 b - z3 a * y3 b,
      y3 = z3 a * x3 b - x3 a * z3 b,
      z3 = x3 a * y3 b - y3 a * x3 b\<rparr>"

section \<open>Exact measures of the application\<close>

definition euclidLen :: "Vec2 \<Rightarrow> Vec2 \<Rightarrow> real" where
  "euclidLen a b = hypot (x2 b - x2 a) (y2 b - y2 a)"

definition liftSphereUpper :: "Vec2 \<Rightarrow> Vec3" where
  "liftSphereUpper p =
     (let r2 = x2 p * x2 p + y2 p * y2 p;
          z = sqrt (max 0 (1 - r2))
      in \<lparr>x3 = x2 p, y3 = y2 p, z3 = z\<rparr>)"

text \<open>The application's own \<^verbatim>\<open>norm3\<close> is the length of a 3-vector.\<close>

definition norm3_app :: "Vec3 \<Rightarrow> real" where
  "norm3_app a = hypot3d (x3 a) (y3 a) (z3 a)"

definition distanceExact :: "SpaceId \<Rightarrow> Vec2 \<Rightarrow> Vec2 \<Rightarrow> xnumber" where
  "distanceExact space A B =
     (if space = E then Fin (euclidLen A B)
      else if space = H then
        (let a2 = x2 A * x2 A + y2 A * y2 A;
             b2 = x2 B * x2 B + y2 B * y2 B;
             dx = x2 A - x2 B;
             dy = y2 A - y2 B;
             d2 = dx * dx + dy * dy;
             denom = (1 - a2) * (1 - b2)
         in if denom \<le> 0 then Infinity
            else (let arg = 1 + (2 * d2) / denom in Fin (arcosh (max 1 arg))))
      else
        (let a = liftSphereUpper A;
             b = liftSphereUpper B;
             da = or1 (norm3_app a);
             db = or1 (norm3_app b);
             cs = clamp (dot3 a b / (da * db)) (- 1) 1
         in Fin (arccos cs)))"

definition projTangent :: "Vec3 \<Rightarrow> Vec3 \<Rightarrow> Vec3" where
  "projTangent b3 p3 =
     (let k = dot3 p3 b3 / or1 (dot3 b3 b3);
          t = \<lparr>x3 = x3 p3 - k * x3 b3, y3 = y3 p3 - k * y3 b3, z3 = z3 p3 - k * z3 b3\<rparr>;
          n = or1 (norm3_app t)
      in \<lparr>x3 = x3 t / n, y3 = y3 t / n, z3 = z3 t / n\<rparr>)"

definition angleHand :: "SpaceId \<Rightarrow> Vec2 \<Rightarrow> Vec2 \<Rightarrow> Vec2 \<Rightarrow> real" where
  "angleHand space A B C =
     (if space = S then
        (let b3 = liftSphereUpper B;
             a3 = liftSphereUpper A;
             c3 = liftSphereUpper C;
             u = projTangent b3 a3;
             v = projTangent b3 c3;
             cs = clamp (dot3 u v) (- 1) 1
         in arccos cs)
      else
        (let u = \<lparr>x2 = x2 A - x2 B, y2 = y2 A - y2 B\<rparr>;
             v = \<lparr>x2 = x2 C - x2 B, y2 = y2 C - y2 B\<rparr>;
             nu = or1 (hypot (x2 u) (y2 u));
             nv = or1 (hypot (x2 v) (y2 v));
             cs = clamp ((x2 u * x2 v + y2 u * y2 v) / (nu * nv)) (- 1) 1
         in arccos cs))"

section \<open>The engine state\<close>

record Polyline =
  pts :: "Vec2 list"
  color :: string
  width :: real

datatype Shape = ShapePolyline Polyline | ShapeMarker Vec2 string

text \<open>
  Log entries carry a time stamp and a payload; the kernel only ever appends them
  (\<^verbatim>\<open>pushLog\<close>) and never reads them.
\<close>

datatype LogEntry =
    ADVANCE real real
  | TURN real real
  | TRACE_LINE real real
  | TRACE_CIRCLE real real
  | TRIANGLE_CREATED real "string list" "Vec2 list"
  | MEASURE_ANGLE real real Vec2 Vec2 Vec2
  | COPY_TO_SPACE real SpaceId SpaceId string
  | OBS real string

text \<open>The optional member \<^verbatim>\<open>rotate\<close> of the animation job (fields \<^verbatim>\<open>from\<close>, \<^verbatim>\<open>to\<close>,
  \<^verbatim>\<open>elapsed\<close>, \<^verbatim>\<open>duration\<close>).\<close>

record Rotate =
  rot_from :: real
  rot_to :: real
  elapsed :: real
  duration :: real

text \<open>The member \<^verbatim>\<open>anim\<close> (fields \<^verbatim>\<open>active\<close>, \<^verbatim>\<open>path\<close>, \<^verbatim>\<open>i\<close>, \<^verbatim>\<open>t\<close>,
  \<^verbatim>\<open>speed\<close>, \<^verbatim>\<open>addToTrace\<close>, \<^verbatim>\<open>rotate?\<close>).\<close>

record Anim =
  active :: bool
  anim_path :: "Vec2 list"
  anim_i :: nat
  anim_t :: real
  speed :: real
  addToTrace :: bool
  rotate :: "Rotate option"

record EngineState =
  space :: SpaceId
  e_pos :: Vec2
  e_theta :: real
  h_pos :: Vec2
  h_theta :: real
  s_p :: Vec3
  s_t :: Vec3
  shapes :: "Shape list"
  inProgress :: "Polyline option"
  log :: "LogEntry list"
  anim :: Anim

text \<open>
  What the builders return: \<^verbatim>\<open>{ path, next }\<close> and \<^verbatim>\<open>{ path, next, traceColor }\<close>. The
  member \<^verbatim>\<open>next\<close> is an engine state. After an advance in the hyperbolic model its position
  can be \<^verbatim>\<open>{ x: NaN, y: NaN }\<close> (see \<open>tanh_e\<close> and \<open>buildAdvancePath\<close> below), which a
  record of reals cannot hold: \<open>NaNPosition s\<close> stands for the state whose members are
  those of \<open>s\<close>, except \<^verbatim>\<open>h_pos\<close>, which is \<^verbatim>\<open>{ x: NaN, y: NaN }\<close>; \<open>Next s\<close> is the state
  \<open>s\<close> itself. The circle builder never returns a position that is not a number, and its
  result holds a plain state.
\<close>

datatype NextState = Next EngineState | NaNPosition EngineState

record 'n PathResult =
  path :: "Vec2 list"
  "next" :: 'n

record 'n TraceResult = "'n PathResult" +
  traceColor :: string

definition createInitialState :: "SpaceId \<Rightarrow> EngineState" where
  "createInitialState sp =
     (let s_p0 = norm3 \<lparr>x3 = 0, y3 = 0, z3 = 1\<rparr>;
          s_t0 = norm3 \<lparr>x3 = 1, y3 = 0, z3 = 0\<rparr>
      in \<lparr>space = sp,
          e_pos = \<lparr>x2 = 0, y2 = 0\<rparr>,
          e_theta = 0,
          h_pos = \<lparr>x2 = 0, y2 = 0\<rparr>,
          h_theta = 0,
          s_p = s_p0,
          s_t = s_t0,
          shapes = [],
          inProgress = None,
          log = [],
          anim = \<lparr>active = False, anim_path = [], anim_i = 0, anim_t = 0, speed = 6 / 10,
                  addToTrace = False, rotate = None\<rparr>\<rparr>)"

definition reset :: "EngineState \<Rightarrow> SpaceId \<Rightarrow> EngineState" where
  "reset state sp = createInitialState sp"

definition clearShapes :: "EngineState \<Rightarrow> EngineState" where
  "clearShapes state = state\<lparr>shapes := [], inProgress := None\<rparr>"

definition sphereToWorld2 :: "Vec3 \<Rightarrow> Vec2" where
  "sphereToWorld2 p = \<lparr>x2 = x3 p, y2 = y3 p\<rparr>"

definition frogWorldPos :: "EngineState \<Rightarrow> Vec2" where
  "frogWorldPos state =
     (if space state = E then e_pos state
      else if space state = H then h_pos state
      else sphereToWorld2 (s_p state))"

definition frogHeadingWorldDir :: "EngineState \<Rightarrow> Vec2" where
  "frogHeadingWorldDir state =
     (if space state = E then \<lparr>x2 = cos (e_theta state), y2 = sin (e_theta state)\<rparr>
      else if space state = H then \<lparr>x2 = cos (h_theta state), y2 = sin (h_theta state)\<rparr>
      else norm2 (sphereToWorld2 (s_t state)))"

section \<open>Hyperbolic helpers of the engine\<close>

definition mobiusAdd :: "Vec2 \<Rightarrow> Vec2 \<Rightarrow> Vec2" where
  "mobiusAdd a b =
     (let a2 = dot2 a a;
          b2 = dot2 b b;
          ab = dot2 a b;
          denom = 1 + 2 * ab + a2 * b2
      in \<lparr>x2 = ((1 + 2 * ab + b2) * x2 a + (1 - a2) * x2 b) / denom,
          y2 = ((1 + 2 * ab + b2) * y2 a + (1 - a2) * y2 b) / denom\<rparr>)"

text \<open>
  \<^verbatim>\<open>Math.exp\<close> returns \<^verbatim>\<open>Infinity\<close> once the exponential is beyond the range of the
  doubles. The largest double is \<open>2 ^ 1024 - 2 ^ 971\<close>; the bound is put at \<open>2 ^ 1024\<close>, which
  is the argument \<open>1024 ln 2\<close>, about \<open>709.78\<close>.
\<close>

definition Math_exp :: "real \<Rightarrow> xnumber" where
  "Math_exp v = (if 2 ^ 1024 \<le> exp v then Infinity else Fin (exp v))"

text \<open>
  The engine's own \<^verbatim>\<open>tanh\<close>, written with \<^verbatim>\<open>Math.exp\<close>:
  \<^verbatim>\<open>const e2x = Math.exp(2 * x); return (e2x - 1) / (e2x + 1)\<close>. When \<^verbatim>\<open>e2x\<close> is
  \<^verbatim>\<open>Infinity\<close> the quotient is \<^verbatim>\<open>Infinity / Infinity\<close>, that is \<^verbatim>\<open>NaN\<close>: the result
  \<open>None\<close>.
\<close>

definition tanh_e :: "real \<Rightarrow> real option" where
  "tanh_e v =
     (case Math_exp (2 * v) of
        Fin e2x \<Rightarrow> Some ((e2x - 1) / (e2x + 1))
      | Infinity \<Rightarrow> None)"

definition hyperbolicDirectionAtOrigin :: "Vec2 \<Rightarrow> Vec2 \<Rightarrow> Vec2" where
  "hyperbolicDirectionAtOrigin p dir =
     (let eps = 1 / 10000;
          safeDir = norm2 dir;
          q0 = add2 p (mul2 safeDir eps);
          q2 = dot2 q0 q0;
          q = (if 9999 / 10000 \<le> q2 then mul2 (norm2 q0) (999 / 1000) else q0);
          Tp = (\<lambda>v. mobiusAdd \<lparr>x2 = - x2 p, y2 = - y2 p\<rparr> v);
          p0 = Tp p;
          q0' = Tp q
      in norm2 (sub2 q0' p0))"

text \<open>
  The two loops \<^verbatim>\<open>while (d > Math.PI) d -= 2 * Math.PI\<close> and
  \<^verbatim>\<open>while (d < -Math.PI) d += 2 * Math.PI\<close>, and the variant of the second with
  \<^verbatim>\<open><=\<close> used by \<^verbatim>\<open>normalizeAngle\<close>.
\<close>

function subWhileGtPi :: "real \<Rightarrow> real" where
  "subWhileGtPi d = (if pi < d then subWhileGtPi (d - 2 * pi) else d)"
  by pat_completeness auto
termination
proof (relation "measure (\<lambda>d. nat \<lceil>d / (2 * pi)\<rceil>)")
  show "wf (measure (\<lambda>d. nat \<lceil>d / (2 * pi)\<rceil>))" by simp
next
  fix d :: real
  assume gt: "pi < d"
  have eq: "(d - 2 * pi) / (2 * pi) = d / (2 * pi) - 1"
    by (simp add: field_simps)
  have "0 < d" using gt pi_gt_zero by linarith
  then have "0 < d / (2 * pi)" using pi_gt_zero by (intro divide_pos_pos) simp_all
  then have pos: "0 < \<lceil>d / (2 * pi)\<rceil>" by simp
  have "\<lceil>(d - 2 * pi) / (2 * pi)\<rceil> = \<lceil>d / (2 * pi)\<rceil> - 1"
    by (simp only: eq ceiling_diff_one)
  with pos have "nat \<lceil>(d - 2 * pi) / (2 * pi)\<rceil> < nat \<lceil>d / (2 * pi)\<rceil>"
    by linarith
  then show "(d - 2 * pi, d) \<in> measure (\<lambda>d. nat \<lceil>d / (2 * pi)\<rceil>)"
    by (simp only: in_measure)
qed

function addWhileLtNegPi :: "real \<Rightarrow> real" where
  "addWhileLtNegPi d = (if d < - pi then addWhileLtNegPi (d + 2 * pi) else d)"
  by pat_completeness auto
termination
proof (relation "measure (\<lambda>d. nat \<lceil>(- d) / (2 * pi)\<rceil>)")
  show "wf (measure (\<lambda>d. nat \<lceil>(- d) / (2 * pi)\<rceil>))" by simp
next
  fix d :: real
  assume lt: "d < - pi"
  have eq: "(- (d + 2 * pi)) / (2 * pi) = (- d) / (2 * pi) - 1"
    by (simp add: field_simps)
  have "0 < - d" using lt pi_gt_zero by linarith
  then have "0 < (- d) / (2 * pi)" using pi_gt_zero by (intro divide_pos_pos) simp_all
  then have pos: "0 < \<lceil>(- d) / (2 * pi)\<rceil>" by (simp only: zero_less_ceiling)
  have "\<lceil>(- (d + 2 * pi)) / (2 * pi)\<rceil> = \<lceil>(- d) / (2 * pi)\<rceil> - 1"
    by (simp only: eq ceiling_diff_one)
  with pos have "nat \<lceil>(- (d + 2 * pi)) / (2 * pi)\<rceil> < nat \<lceil>(- d) / (2 * pi)\<rceil>"
    by linarith
  then show "(d + 2 * pi, d) \<in> measure (\<lambda>d. nat \<lceil>(- d) / (2 * pi)\<rceil>)"
    by (simp only: in_measure)
qed

function addWhileLeNegPi :: "real \<Rightarrow> real" where
  "addWhileLeNegPi d = (if d \<le> - pi then addWhileLeNegPi (d + 2 * pi) else d)"
  by pat_completeness auto
termination
proof (relation "measure (\<lambda>d. nat \<lceil>(- d) / (2 * pi)\<rceil>)")
  show "wf (measure (\<lambda>d. nat \<lceil>(- d) / (2 * pi)\<rceil>))" by simp
next
  fix d :: real
  assume le: "d \<le> - pi"
  have eq: "(- (d + 2 * pi)) / (2 * pi) = (- d) / (2 * pi) - 1"
    by (simp add: field_simps)
  have "0 < - d" using le pi_gt_zero by linarith
  then have "0 < (- d) / (2 * pi)" using pi_gt_zero by (intro divide_pos_pos) simp_all
  then have pos: "0 < \<lceil>(- d) / (2 * pi)\<rceil>" by (simp only: zero_less_ceiling)
  have "\<lceil>(- (d + 2 * pi)) / (2 * pi)\<rceil> = \<lceil>(- d) / (2 * pi)\<rceil> - 1"
    by (simp only: eq ceiling_diff_one)
  with pos have "nat \<lceil>(- (d + 2 * pi)) / (2 * pi)\<rceil> < nat \<lceil>(- d) / (2 * pi)\<rceil>"
    by linarith
  then show "(d + 2 * pi, d) \<in> measure (\<lambda>d. nat \<lceil>(- d) / (2 * pi)\<rceil>)"
    by (simp only: in_measure)
qed

declare subWhileGtPi.simps [simp del]
declare addWhileLtNegPi.simps [simp del]
declare addWhileLeNegPi.simps [simp del]

text \<open>
  \<^verbatim>\<open>hyperbolicGeodesicPoints(a, b, n = 140)\<close>. The loop \<^verbatim>\<open>for (i = 0; i <= n; i++)\<close>
  pushes one point per index, so the result is the image of the indices \<open>0..n\<close>.
\<close>

definition hyperbolicGeodesicPoints :: "Vec2 \<Rightarrow> Vec2 \<Rightarrow> nat \<Rightarrow> Vec2 list" where
  "hyperbolicGeodesicPoints a b n =
     (let cross = x2 a * y2 b - y2 a * x2 b in
      if \<bar>cross\<bar> < 1 / 1000000 then
        map (\<lambda>i. let t = real i / real n;
                     p = add2 (mul2 a (1 - t)) (mul2 b t);
                     r2 = dot2 p p
                 in if r2 < 999 / 1000 then p else mul2 (norm2 p) (999 / 1000))
            [0..<Suc n]
      else
        (let A1 = x2 a; A2 = y2 a;
             B1 = x2 b; B2 = y2 b;
             rhsA = (dot2 a a + 1) / 2;
             rhsB = (dot2 b b + 1) / 2;
             det = A1 * B2 - A2 * B1;
             cx = (rhsA * B2 - A2 * rhsB) / det;
             cy = (A1 * rhsB - rhsA * B1) / det;
             r = hypot (x2 a - cx) (y2 a - cy);
             angA = atan2 (y2 a - cy) (x2 a - cx);
             angB = atan2 (y2 b - cy) (x2 b - cx);
             d = addWhileLtNegPi (subWhileGtPi (angB - angA))
         in map (\<lambda>i. let t = real i / real n;
                        ang = angA + d * t;
                        p = \<lparr>x2 = cx + r * cos ang, y2 = cy + r * sin ang\<rparr>;
                        r2 = dot2 p p
                    in if r2 < 999 / 1000 then p else mul2 (norm2 p) (999 / 1000))
                [0..<Suc n]))"

text \<open>
  A point \<^verbatim>\<open>p\<close> whose coordinates are \<^verbatim>\<open>NaN\<close> fails the test of the guard
  \<^verbatim>\<open>r2 < 0.999 ? p : mul2(norm2(p), 0.999)\<close>, and in \<^verbatim>\<open>norm2\<close> the test \<^verbatim>\<open>n > 0\<close> fails as
  well, so that \<^verbatim>\<open>norm2(p)\<close> is \<^verbatim>\<open>{ x: 1, y: 0 }\<close>: the guard returns the point below.
\<close>

definition guardedNaN :: Vec2 where
  "guardedNaN = mul2 \<lparr>x2 = 1, y2 = 0\<rparr> (999 / 1000)"

text \<open>
  \<^verbatim>\<open>hyperbolicGeodesicPoints(a, b, n)\<close> for an end point \<^verbatim>\<open>b\<close> that is
  \<^verbatim>\<open>{ x: NaN, y: NaN }\<close>: \<^verbatim>\<open>cross\<close> is \<^verbatim>\<open>NaN\<close>, the test \<^verbatim>\<open>Math.abs(cross) < 1e-6\<close> is
  false, the centre, the radius and the angles of the circle are \<^verbatim>\<open>NaN\<close>, the tests of
  both loops on \<^verbatim>\<open>d\<close> are false, and each of the \<open>n + 1\<close> points is \<^verbatim>\<open>NaN\<close> before the
  guard.
\<close>

definition hyperbolicGeodesicPointsNaN :: "nat \<Rightarrow> Vec2 list" where
  "hyperbolicGeodesicPointsNaN n = map (\<lambda>i. guardedNaN) [0..<Suc n]"

section \<open>Sphere helpers of the engine\<close>

definition sphereAdvance :: "Vec3 \<Rightarrow> Vec3 \<Rightarrow> real \<Rightarrow> Vec3 \<times> Vec3" where
  "sphereAdvance p t arc =
     (let cp = cos arc;
          sp = sin arc;
          p2 = add3 (mul3 p cp) (mul3 t sp);
          t2 = add3 (mul3 t cp) (mul3 p (- sp))
      in (norm3 p2, norm3 t2))"

definition sphereTurn :: "Vec3 \<Rightarrow> Vec3 \<Rightarrow> real \<Rightarrow> Vec3" where
  "sphereTurn p t ang =
     (let axis = p;
          cp = cos ang;
          sp = sin ang;
          axt = cross3 axis t
      in norm3 (add3 (add3 (mul3 t cp) (mul3 axt sp)) (mul3 axis (dot3 axis t * (1 - cp)))))"

definition greatCirclePath :: "Vec3 \<Rightarrow> Vec3 \<Rightarrow> real \<Rightarrow> nat \<Rightarrow> Vec2 list" where
  "greatCirclePath p t arcLen n =
     map (\<lambda>i. let s = (arcLen * real i) / real n in sphereToWorld2 (fst (sphereAdvance p t s)))
         [0..<Suc n]"

definition sphereCirclePoints :: "Vec3 \<Rightarrow> real \<Rightarrow> nat \<Rightarrow> Vec2 list" where
  "sphereCirclePoints center radiusArc n =
     (let u0 = cross3 center \<lparr>x3 = 0, y3 = 0, z3 = 1\<rparr>;
          u1 = (if hypot3 u0 < 1 / 1000000 then cross3 center \<lparr>x3 = 0, y3 = 1, z3 = 0\<rparr> else u0);
          u = norm3 u1;
          v = norm3 (cross3 center u);
          cr = cos radiusArc;
          sr = sin radiusArc
      in map (\<lambda>i. let a = (2 * pi * real i) / real n;
                     dir = add3 (mul3 u (cos a)) (mul3 v (sin a));
                     p = add3 (mul3 center cr) (mul3 dir sr)
                 in sphereToWorld2 (norm3 p))
             [0..<Suc n])"

section \<open>Building paths for the actions\<close>

text \<open>
  \<^verbatim>\<open>buildAdvancePath(state, dist)\<close>. In the hyperbolic branch a \<^verbatim>\<open>tanh\<close> that is
  \<^verbatim>\<open>NaN\<close> makes both coordinates of \<^verbatim>\<open>step0\<close> and of \<^verbatim>\<open>p2\<close> \<^verbatim>\<open>NaN\<close>, and \<^verbatim>\<open>r2\<close>
  too; the test \<^verbatim>\<open>r2 >= 0.9999\<close> is then false, so \<^verbatim>\<open>p2\<close> is not rescaled: it goes as it
  is into \<^verbatim>\<open>hyperbolicGeodesicPoints\<close> and into \<^verbatim>\<open>next.h_pos\<close>.
\<close>

definition buildAdvancePath :: "EngineState \<Rightarrow> real \<Rightarrow> NextState PathResult" where
  "buildAdvancePath state dst =
     (if space state = E then
        (let A = e_pos state;
             dir = \<lparr>x2 = cos (e_theta state), y2 = sin (e_theta state)\<rparr>;
             B = add2 A (mul2 dir dst)
         in \<lparr>path = [A, B], next = Next (state\<lparr>e_pos := B\<rparr>)\<rparr>)
      else if space state = H then
        (let p = h_pos state;
             dirLocal = \<lparr>x2 = cos (h_theta state), y2 = sin (h_theta state)\<rparr>;
             d0 = hyperbolicDirectionAtOrigin p dirLocal
         in case tanh_e (dst / 2) of
              Some t \<Rightarrow>
                (let step0 = mul2 d0 t;
                     p2' = mobiusAdd p step0;
                     r2 = dot2 p2' p2';
                     p2 = (if 9999 / 10000 \<le> r2 then mul2 (norm2 p2') (999 / 1000) else p2')
                 in \<lparr>path = hyperbolicGeodesicPoints p p2 180,
                     next = Next (state\<lparr>h_pos := p2\<rparr>)\<rparr>)
            | None \<Rightarrow>
                \<lparr>path = hyperbolicGeodesicPointsNaN 180, next = NaNPosition state\<rparr>)
      else
        (let pth = greatCirclePath (s_p state) (s_t state) dst 260;
             (p2, t2) = sphereAdvance (s_p state) (s_t state) dst
         in \<lparr>path = pth, next = Next (state\<lparr>s_p := p2, s_t := t2\<rparr>)\<rparr>))"

text \<open>\<^verbatim>\<open>buildTurnAnim(state, deg, duration = 0.35)\<close>\<close>

definition buildTurnAnim :: "EngineState \<Rightarrow> real \<Rightarrow> real \<Rightarrow> EngineState" where
  "buildTurnAnim state deg dur =
     (let ang = (deg * pi) / 180 in
      if space state = E then
        (let from = e_theta state; to = from + ang
         in state\<lparr>anim := (anim state)\<lparr>active := True, anim_path := [], anim_i := 0, anim_t := 0,
              addToTrace := False,
              rotate := Some \<lparr>rot_from = from, rot_to = to, elapsed = 0, duration = dur\<rparr>\<rparr>\<rparr>)
      else if space state = H then
        (let from = h_theta state; to = from + ang
         in state\<lparr>anim := (anim state)\<lparr>active := True, anim_path := [], anim_i := 0, anim_t := 0,
              addToTrace := False,
              rotate := Some \<lparr>rot_from = from, rot_to = to, elapsed = 0, duration = dur\<rparr>\<rparr>\<rparr>)
      else
        state\<lparr>anim := (anim state)\<lparr>active := True, anim_path := [], anim_i := 0, anim_t := 0,
              addToTrace := False,
              rotate := Some \<lparr>rot_from = 0, rot_to = ang, elapsed = 0, duration = dur\<rparr>\<rparr>\<rparr>)"

definition buildGeodesicTrace :: "EngineState \<Rightarrow> real \<Rightarrow> NextState TraceResult" where
  "buildGeodesicTrace state len =
     (let r = buildAdvancePath state len
      in \<lparr>path = path r, next = next r, traceColor = ''#16a34a''\<rparr>)"

text \<open>
  \<^verbatim>\<open>buildCircleTrace(state, radius)\<close>. In the hyperbolic branch a \<^verbatim>\<open>tanh\<close> that is
  \<^verbatim>\<open>NaN\<close> makes \<^verbatim>\<open>rho\<close> and both coordinates of every \<^verbatim>\<open>q\<close> \<^verbatim>\<open>NaN\<close>, and the guard
  turns each of them into \<open>guardedNaN\<close>.
\<close>

definition buildCircleTrace :: "EngineState \<Rightarrow> real \<Rightarrow> EngineState TraceResult" where
  "buildCircleTrace state radius =
     (if space state = E then
        (let C = e_pos state;
             n = 260;
             ps = map (\<lambda>i. let a = (2 * pi * real i) / real n
                           in \<lparr>x2 = x2 C + radius * cos a, y2 = y2 C + radius * sin a\<rparr>)
                      [0..<Suc n];
             lst = ps ! (length ps - 1)
         in \<lparr>path = ps, next = state\<lparr>e_pos := lst\<rparr>, traceColor = ''#2563eb''\<rparr>)
      else if space state = H then
        (let p = h_pos state;
             p2 = dot2 p p;
             n = 280;
             ps = (case tanh_e (radius / 2) of
                     Some t \<Rightarrow>
                       (let rho = (t * (1 - p2)) / (1 - p2 * t * t)
                        in map (\<lambda>i. let a = (2 * pi * real i) / real n;
                                       q = \<lparr>x2 = x2 p + rho * cos a, y2 = y2 p + rho * sin a\<rparr>;
                                       r2 = dot2 q q
                                   in if r2 < 999 / 1000 then q
                                      else mul2 (norm2 q) (999 / 1000))
                               [0..<Suc n])
                   | None \<Rightarrow> map (\<lambda>i. guardedNaN) [0..<Suc n]);
             lst = ps ! (length ps - 1)
         in \<lparr>path = ps, next = state\<lparr>h_pos := lst\<rparr>, traceColor = ''#2563eb''\<rparr>)
      else
        (let ps = sphereCirclePoints (s_p state) radius 320
         in \<lparr>path = ps, next = state, traceColor = ''#2563eb''\<rparr>))"

section \<open>The animation step\<close>

text \<open>
  The loop of \<^verbatim>\<open>stepAnimation\<close> that walks along the polyline:
  \<^verbatim>\<open>while (remaining > 0 && i < path.length - 1) { ... }\<close>. It returns the final
  \<^verbatim>\<open>i\<close>, \<^verbatim>\<open>t\<close>, \<^verbatim>\<open>remaining\<close> and \<^verbatim>\<open>currentPos\<close>. The first branch ends with
  \<^verbatim>\<open>break\<close>; in the second the index grows, which bounds the number of rounds.
\<close>

function walkPath :: "Vec2 list \<Rightarrow> nat \<Rightarrow> real \<Rightarrow> real \<Rightarrow> Vec2 \<Rightarrow> nat \<times> real \<times> real \<times> Vec2" where
  "walkPath pth i t remaining currentPos =
     (if 0 < remaining \<and> i < length pth - 1 then
        (let A = pth ! i;
             B = pth ! (i + 1);
             seg = sub2 B A;
             segLen = hypot2 seg;
             cur = add2 A (mul2 seg t);
             left = segLen * (1 - t)
         in if remaining \<le> left then
              (let t' = t + remaining / segLen
               in (i, t', 0, add2 A (mul2 seg t')))
            else walkPath pth (i + 1) 0 (remaining - left) B)
      else (i, t, remaining, currentPos))"
  by pat_completeness auto
termination
  by (relation "measure (\<lambda>(pth, i, t, remaining, currentPos). length pth - 1 - i)") auto

declare walkPath.simps [simp del]

definition stepAnimation :: "EngineState \<Rightarrow> real \<Rightarrow> EngineState" where
  "stepAnimation state dt =
     (if \<not> active (anim state) then state
      else case rotate (anim state) of
        Some r \<Rightarrow>
          (let elapsed' = elapsed r + dt;
               u = clamp (elapsed' / duration r) 0 1
           in if space state = E then
                (let theta = rot_from r + (rot_to r - rot_from r) * u;
                     done = (1 \<le> u)
                 in state\<lparr>e_theta := theta,
                      anim := (if done
                        then \<lparr>active = False, anim_path = [], anim_i = 0, anim_t = 0,
                              speed = speed (anim state), addToTrace = False, rotate = None\<rparr>
                        else (anim state)\<lparr>rotate := Some (r\<lparr>elapsed := elapsed'\<rparr>)\<rparr>)\<rparr>)
              else if space state = H then
                (let theta = rot_from r + (rot_to r - rot_from r) * u;
                     done = (1 \<le> u)
                 in state\<lparr>h_theta := theta,
                      anim := (if done
                        then \<lparr>active = False, anim_path = [], anim_i = 0, anim_t = 0,
                              speed = speed (anim state), addToTrace = False, rotate = None\<rparr>
                        else (anim state)\<lparr>rotate := Some (r\<lparr>elapsed := elapsed'\<rparr>)\<rparr>)\<rparr>)
              else
                (let dAng = (rot_to r * dt) / duration r;
                     t2 = sphereTurn (s_p state) (s_t state) dAng;
                     done = (1 \<le> u)
                 in state\<lparr>s_t := t2,
                      anim := (if done
                        then \<lparr>active = False, anim_path = [], anim_i = 0, anim_t = 0,
                              speed = speed (anim state), addToTrace = False, rotate = None\<rparr>
                        else (anim state)\<lparr>rotate := Some (r\<lparr>elapsed := elapsed'\<rparr>)\<rparr>)\<rparr>))
      | None \<Rightarrow>
          (let pth = anim_path (anim state) in
           if length pth < 2 then state\<lparr>anim := (anim state)\<lparr>active := False\<rparr>\<rparr>
           else
             (let (i, t, remaining, currentPos) =
                    walkPath pth (anim_i (anim state)) (anim_t (anim state))
                      (speed (anim state) * dt) (frogWorldPos state);
                  nextState =
                    (if space state = E then state\<lparr>e_pos := currentPos\<rparr>
                     else if space state = H then state\<lparr>h_pos := currentPos\<rparr>
                     else
                       (let r2 = x2 currentPos * x2 currentPos + y2 currentPos * y2 currentPos;
                            z = sqrt (max 0 (1 - r2))
                        in state\<lparr>s_p := norm3 \<lparr>x3 = x2 currentPos, y3 = y2 currentPos, z3 = z\<rparr>\<rparr>));
                  nextState' =
                    (if addToTrace (anim state) then
                       (case inProgress nextState of
                          Some ip \<Rightarrow>
                            (let ps = pts ip in
                             if ps = [] \<or> 2 / 1000 < hypot2 (sub2 currentPos (last ps))
                             then nextState\<lparr>inProgress := Some (ip\<lparr>pts := ps @ [currentPos]\<rparr>)\<rparr>
                             else nextState)
                        | None \<Rightarrow> nextState)
                     else nextState);
                  done = (length pth - 1 \<le> i)
              in nextState'\<lparr>anim := (if done
                   then \<lparr>active = False, anim_path = [], anim_i = 0, anim_t = 0,
                         speed = speed (anim state), addToTrace = False, rotate = None\<rparr>
                   else (anim state)\<lparr>anim_i := i, anim_t := t\<rparr>)\<rparr>)))"

definition startTracing :: "EngineState \<Rightarrow> string \<Rightarrow> real \<Rightarrow> EngineState" where
  "startTracing state col w =
     state\<lparr>inProgress := Some \<lparr>pts = [frogWorldPos state], color = col, width = w\<rparr>\<rparr>"

definition finishTracing :: "EngineState \<Rightarrow> EngineState" where
  "finishTracing state =
     (case inProgress state of
        None \<Rightarrow> state
      | Some poly \<Rightarrow>
          if length (pts poly) < 2 then state\<lparr>inProgress := None\<rparr>
          else state\<lparr>shapes := shapes state @ [ShapePolyline poly], inProgress := None\<rparr>)"

text \<open>\<^verbatim>\<open>animatePath(state, path, speed = 0.7, addToTrace = false)\<close>: the new job has no
  \<^verbatim>\<open>rotate\<close> member.\<close>

definition animatePath :: "EngineState \<Rightarrow> Vec2 list \<Rightarrow> real \<Rightarrow> bool \<Rightarrow> EngineState" where
  "animatePath state pth spd add =
     state\<lparr>anim := \<lparr>active = True, anim_path = pth, anim_i = 0, anim_t = 0, speed = spd,
                    addToTrace = add, rotate = None\<rparr>\<rparr>"

definition pushLog :: "EngineState \<Rightarrow> LogEntry \<Rightarrow> EngineState" where
  "pushLog state entry = state\<lparr>log := log state @ [entry]\<rparr>"

section \<open>Angle measurement of the engine\<close>

definition angleAt :: "SpaceId \<Rightarrow> Vec2 \<Rightarrow> Vec2 \<Rightarrow> Vec2 \<Rightarrow> real" where
  "angleAt sp A B C =
     (if sp = E then
        (let u = norm2 (sub2 A B);
             v = norm2 (sub2 C B);
             d = clamp (dot2 u v) (- 1) 1
         in arccos d)
      else if sp = H then
        (let ptsBA = hyperbolicGeodesicPoints B A 30;
             ptsBC = hyperbolicGeodesicPoints B C 30;
             d1 = norm2 (sub2 (ptsBA ! 1) (ptsBA ! 0));
             d2 = norm2 (sub2 (ptsBC ! 1) (ptsBC ! 0));
             d = clamp (dot2 d1 d2) (- 1) 1
         in arccos d)
      else
        (let lift = (\<lambda>p. let r2 = x2 p * x2 p + y2 p * y2 p;
                            z = sqrt (max 0 (1 - r2))
                        in norm3 \<lparr>x3 = x2 p, y3 = y2 p, z3 = z\<rparr>);
             a3 = lift A; b3 = lift B; c3 = lift C;
             n1 = cross3 b3 a3;
             n2 = cross3 b3 c3;
             t1 = cross3 n1 b3;
             t2 = cross3 n2 b3;
             d = clamp (dot3 (norm3 t1) (norm3 t2)) (- 1) 1
         in arccos d))"

section \<open>Exact geodesics and lines: the Poincar\'e disk\<close>

text \<open>\<^verbatim>\<open>type Circle = { c: Vec2; r: number; aP: number; aQ: number }\<close>\<close>

record Circle =
  circ_c :: Vec2
  circ_r :: real
  aP :: real
  aQ :: real

definition normalizeAngle :: "real \<Rightarrow> real" where
  "normalizeAngle a = subWhileGtPi (addWhileLeNegPi a)"

definition clampNum :: "real \<Rightarrow> real \<Rightarrow> real \<Rightarrow> real" where
  "clampNum v a b = max a (min b v)"

definition poincareCircleThroughPQ :: "Vec2 \<Rightarrow> Vec2 \<Rightarrow> Circle option" where
  "poincareCircleThroughPQ p q =
     (let eps = 1 / 10 ^ 10;
          cross = x2 p * y2 q - y2 p * x2 q
      in if \<bar>cross\<bar> < 1 / 10 ^ 7 then None
         else
           (let pp = x2 p * x2 p + y2 p * y2 p;
                qq = x2 q * x2 q + y2 q * y2 q;
                b1 = (pp + 1) / 2;
                b2 = (qq + 1) / 2;
                det = x2 p * y2 q - y2 p * x2 q
            in if \<bar>det\<bar> < eps then None
               else
                 (let cx = (b1 * y2 q - y2 p * b2) / det;
                      cy = (x2 p * b2 - b1 * x2 q) / det;
                      r2 = cx * cx + cy * cy - 1
                  in if r2 \<le> 1 / 10 ^ 10 then None
                     else
                       (let r = sqrt r2;
                            aP' = atan2 (y2 p - cy) (x2 p - cx);
                            aQ' = atan2 (y2 q - cy) (x2 q - cx)
                        in Some \<lparr>circ_c = \<lparr>x2 = cx, y2 = cy\<rparr>, circ_r = r, aP = aP', aQ = aQ'\<rparr>))))"

definition circleCircleIntersections :: "Vec2 \<Rightarrow> real \<Rightarrow> Vec2 \<Rightarrow> real \<Rightarrow> Vec2 list" where
  "circleCircleIntersections c1 r1 c2 r2 =
     (let dx = x2 c2 - x2 c1;
          dy = y2 c2 - y2 c1;
          d = hypot dx dy;
          eps = 1 / 10 ^ 10
      in if d < eps then []
         else if r1 + r2 + 1 / 10 ^ 9 < d then []
         else if d < \<bar>r1 - r2\<bar> - 1 / 10 ^ 9 then []
         else
           (let a = (r1 * r1 - r2 * r2 + d * d) / (2 * d);
                h2 = r1 * r1 - a * a
            in if h2 < - (1 / 10 ^ 9) then []
               else
                 (let h = sqrt (max 0 h2);
                      xm = x2 c1 + (a * dx) / d;
                      ym = y2 c1 + (a * dy) / d;
                      rx = - dy * (h / d);
                      ry = dx * (h / d);
                      p1 = \<lparr>x2 = xm + rx, y2 = ym + ry\<rparr>;
                      p2 = \<lparr>x2 = xm - rx, y2 = ym - ry\<rparr>
                  in if hypot (x2 p1 - x2 p2) (y2 p1 - y2 p2) < 1 / 10 ^ 9 then [p1]
                     else [p1, p2])))"

text \<open>The local function \<^verbatim>\<open>contains\<close> of \<^verbatim>\<open>sampleArcThroughAngles\<close>.\<close>

definition arcContains :: "real \<Rightarrow> real \<Rightarrow> real \<Rightarrow> bool" where
  "arcContains a from delta =
     (let xa = normalizeAngle (a - from);
          L = normalizeAngle delta
      in if 0 \<le> L then 0 \<le> xa \<and> xa \<le> L + 1 / 10 ^ 9
         else xa \<le> 0 \<and> L - 1 / 10 ^ 9 \<le> xa)"

definition sampleArcThroughAngles ::
  "Vec2 \<Rightarrow> real \<Rightarrow> real \<Rightarrow> real \<Rightarrow> real \<Rightarrow> nat \<Rightarrow> Vec2 list" where
  "sampleArcThroughAngles c r aStart aEnd mustContain steps =
     (let d = normalizeAngle (aEnd - aStart);
          dAlt = d - sgn (or1 d) * 2 * pi;
          mid1 = aStart + d * (1 / 2);
          mid2 = aStart + dAlt * (1 / 2);
          useDelta = (if arcContains mustContain aStart d then d else dAlt)
      in map (\<lambda>i. let t = real i / real steps;
                     ang = aStart + useDelta * t
                 in \<lparr>x2 = x2 c + r * cos ang, y2 = y2 c + r * sin ang\<rparr>)
             [0..<Suc steps])"

text \<open>
  \<^verbatim>\<open>pts[0] = p; pts[pts.length - 1] = q\<close> overwrite the two ends of the sampled arc,
  which has \<open>steps + 1\<close> points and so is never empty.
\<close>

definition geodesicPoincareSegment :: "Vec2 \<Rightarrow> Vec2 \<Rightarrow> nat \<Rightarrow> Vec2 list" where
  "geodesicPoincareSegment p q steps =
     (let cross = x2 p * y2 q - y2 p * x2 q
      in if \<bar>cross\<bar> < 1 / 10 ^ 7 then [p, q]
         else
           (case poincareCircleThroughPQ p q of
              None \<Rightarrow> [p, q]
            | Some circ \<Rightarrow>
                (let ps = sampleArcThroughAngles (circ_c circ) (circ_r circ) (aP circ) (aQ circ)
                            (aP circ) steps;
                     ps' = ps[0 := p]
                 in ps'[length ps' - 1 := q])))"

definition geodesicPoincareFullLine :: "Vec2 \<Rightarrow> Vec2 \<Rightarrow> nat \<Rightarrow> Vec2 list" where
  "geodesicPoincareFullLine p q steps =
     (let cross = x2 p * y2 q - y2 p * x2 q
      in if \<bar>cross\<bar> < 1 / 10 ^ 7 then
           (let d = (if 1 / 10 ^ 8 < hypot (x2 p) (y2 p) then p else q);
                L = or1 (hypot (x2 d) (y2 d));
                ux = x2 d / L; uy = y2 d / L
            in [\<lparr>x2 = - ux, y2 = - uy\<rparr>, \<lparr>x2 = ux, y2 = uy\<rparr>])
         else
           (case poincareCircleThroughPQ p q of
              None \<Rightarrow> [p, q]
            | Some circ \<Rightarrow>
                (let inter = circleCircleIntersections (circ_c circ) (circ_r circ)
                               \<lparr>x2 = 0, y2 = 0\<rparr> 1
                 in if length inter < 2 then [p, q]
                    else
                      (let a1 = atan2 (y2 (inter ! 0) - y2 (circ_c circ))
                                  (x2 (inter ! 0) - x2 (circ_c circ));
                           a2 = atan2 (y2 (inter ! 1) - y2 (circ_c circ))
                                  (x2 (inter ! 1) - x2 (circ_c circ));
                           ps = sampleArcThroughAngles (circ_c circ) (circ_r circ) a1 a2
                                  (aP circ) steps;
                           inside = filter (\<lambda>s. x2 s * x2 s + y2 s * y2 s \<le> 1 + 1 / 10 ^ 6) ps
                       in if 2 \<le> length inside then inside else ps))))"

text \<open>\<^verbatim>\<open>hyperbolicParallelThroughPoint(baseP, baseQ, through, whichEnd: 0 | 1, steps = 520)\<close>;
  \<^verbatim>\<open>whichEnd\<close> is \<open>False\<close> for \<open>0\<close> and \<open>True\<close> for \<open>1\<close>.\<close>

definition hyperbolicParallelThroughPoint ::
  "Vec2 \<Rightarrow> Vec2 \<Rightarrow> Vec2 \<Rightarrow> bool \<Rightarrow> nat \<Rightarrow> Vec2 list" where
  "hyperbolicParallelThroughPoint baseP baseQ through whichEnd steps =
     (let base = geodesicPoincareFullLine baseP baseQ 520
      in if length base < 2 then []
         else
           (let A = base ! 0;
                B = base ! (length base - 1);
                En = (if \<not> whichEnd then A else B);
                ex = x2 En; ey = y2 En;
                px = x2 through; py = y2 through;
                rhs1 = 1;
                rhs2 = (px * px + py * py + 1) / 2;
                det = ex * py - ey * px
            in if \<bar>det\<bar> < 1 / 10 ^ 10 then
                 (let L = or1 (hypot px py)
                  in [\<lparr>x2 = - px / L, y2 = - py / L\<rparr>, \<lparr>x2 = px / L, y2 = py / L\<rparr>])
               else
                 (let cx = (rhs1 * py - ey * rhs2) / det;
                      cy = (ex * rhs2 - rhs1 * px) / det;
                      r2 = cx * cx + cy * cy - 1
                  in if r2 \<le> 1 / 10 ^ 10 then []
                     else
                       (let r = sqrt r2;
                            inter = circleCircleIntersections \<lparr>x2 = cx, y2 = cy\<rparr> r
                                      \<lparr>x2 = 0, y2 = 0\<rparr> 1
                        in if length inter < 2 then []
                           else
                             (let aE = atan2 (y2 En - cy) (x2 En - cx);
                                  d0 = (x2 (inter ! 0) - x2 En) ^ 2 + (y2 (inter ! 0) - y2 En) ^ 2;
                                  other = (if 1 / 10 ^ 6 < d0 then inter ! 0 else inter ! 1);
                                  aO = atan2 (y2 other - cy) (x2 other - cx);
                                  aPt = atan2 (y2 through - cy) (x2 through - cx)
                              in sampleArcThroughAngles \<lparr>x2 = cx, y2 = cy\<rparr> r aE aO aPt steps)))))"

text \<open>\<^verbatim>\<open>poincareCircleFromPointDir(P, u): { c, r } | null\<close>\<close>

definition poincareCircleFromPointDir :: "Vec2 \<Rightarrow> Vec2 \<Rightarrow> (Vec2 \<times> real) option" where
  "poincareCircleFromPointDir P u =
     (let n = \<lparr>x2 = - y2 u, y2 = x2 u\<rparr>;
          pn = x2 P * x2 n + y2 P * y2 n
      in if \<bar>pn\<bar> < 1 / 10 ^ 10 then None
         else
           (let t = (1 - (x2 P * x2 P + y2 P * y2 P)) / (2 * pn);
                c = \<lparr>x2 = x2 P + t * x2 n, y2 = y2 P + t * y2 n\<rparr>;
                r = \<bar>t\<bar>
            in if x2 c * x2 c + y2 c * y2 c \<le> 1 + 1 / 10 ^ 9 then None
               else Some (c, r)))"

text \<open>
  One candidate direction of the angular search: the body shared by the coarse sweep and
  the refinement of \<^verbatim>\<open>hyperbolicPerpUsingOrthogonality\<close>. The pair holds
  \<^verbatim>\<open>bestTheta\<close> and \<^verbatim>\<open>bestErr\<close>, the latter \<^verbatim>\<open>Infinity\<close> at the start.
\<close>

definition perpTry :: "Vec2 \<Rightarrow> real \<Rightarrow> Vec2 \<Rightarrow> real \<Rightarrow> real \<times> xnumber \<Rightarrow> real \<times> xnumber" where
  "perpTry baseC baseR P th best =
     (let u = \<lparr>x2 = cos th, y2 = sin th\<rparr>
      in case poincareCircleFromPointDir P u of
           None \<Rightarrow> best
         | Some (c, r) \<Rightarrow>
             (let dcx = x2 c - x2 baseC;
                  dcy = y2 c - y2 baseC;
                  err = \<bar>dcx * dcx + dcy * dcy - (r * r + baseR * baseR)\<bar>
              in if (case snd best of Infinity \<Rightarrow> True | Fin e \<Rightarrow> err < e)
                 then (th, Fin err) else best))"

definition hyperbolicPerpUsingOrthogonality :: "Vec2 \<Rightarrow> real \<Rightarrow> Vec2 \<Rightarrow> nat \<Rightarrow> Vec2 list" where
  "hyperbolicPerpUsingOrthogonality baseC baseR P steps =
     (let N = 240;
          best0 = fold (\<lambda>i best. perpTry baseC baseR P ((2 * pi * real i) / real N) best)
                    [0..<N] (0, Infinity);
          best1 = fold (\<lambda>k best.
                      let step = (pi / 180) * (10 / (real k + 1))
                      in fold (\<lambda>s b. perpTry baseC baseR P (fst b + s * step) b)
                           [- 2, - 1, 1, 2] best)
                    [0..<6] best0;
          uBest = \<lparr>x2 = cos (fst best1), y2 = sin (fst best1)\<rparr>
      in case poincareCircleFromPointDir P uBest of
           None \<Rightarrow> []
         | Some (bc, br) \<Rightarrow>
             (let inter = circleCircleIntersections bc br \<lparr>x2 = 0, y2 = 0\<rparr> 1
              in if length inter < 2 then []
                 else
                   (let a1 = atan2 (y2 (inter ! 0) - y2 bc) (x2 (inter ! 0) - x2 bc);
                        a2 = atan2 (y2 (inter ! 1) - y2 bc) (x2 (inter ! 1) - x2 bc);
                        aPt = atan2 (y2 P - y2 bc) (x2 P - x2 bc)
                    in sampleArcThroughAngles bc br a1 a2 aPt steps)))"

definition hyperbolicPerpNumeric :: "Vec2 \<Rightarrow> Vec2 \<Rightarrow> Vec2 \<Rightarrow> nat \<Rightarrow> Vec2 list" where
  "hyperbolicPerpNumeric baseP baseQ P steps =
     (let base = geodesicPoincareFullLine baseP baseQ 520
      in if length base < 2 then []
         else
           (let u = \<lparr>x2 = - y2 P, y2 = x2 P\<rparr>
            in case poincareCircleFromPointDir P u of
                 None \<Rightarrow> []
               | Some (cc, cr) \<Rightarrow>
                   (let inter = circleCircleIntersections cc cr \<lparr>x2 = 0, y2 = 0\<rparr> 1
                    in if length inter < 2 then []
                       else
                         (let a1 = atan2 (y2 (inter ! 0) - y2 cc) (x2 (inter ! 0) - x2 cc);
                              a2 = atan2 (y2 (inter ! 1) - y2 cc) (x2 (inter ! 1) - x2 cc);
                              aPt = atan2 (y2 P - y2 cc) (x2 P - x2 cc)
                          in sampleArcThroughAngles cc cr a1 a2 aPt steps))))"

text \<open>\<^verbatim>\<open>hyperbolicPerpendicularThroughPoint(baseP, baseQ, through, steps = 520)\<close>; its first
  \<^verbatim>\<open>if\<close> block only computes locals that are never used.\<close>

definition hyperbolicPerpendicularThroughPoint :: "Vec2 \<Rightarrow> Vec2 \<Rightarrow> Vec2 \<Rightarrow> nat \<Rightarrow> Vec2 list" where
  "hyperbolicPerpendicularThroughPoint baseP baseQ through steps =
     (case poincareCircleThroughPQ baseP baseQ of
        None \<Rightarrow> hyperbolicPerpNumeric baseP baseQ through steps
      | Some baseCirc \<Rightarrow>
          hyperbolicPerpUsingOrthogonality (circ_c baseCirc) (circ_r baseCirc) through steps)"

section \<open>Exact geodesics and lines: the projected sphere\<close>

definition v3dot :: "Vec3 \<Rightarrow> Vec3 \<Rightarrow> real" where
  "v3dot a b = x3 a * x3 b + y3 a * y3 b + z3 a * z3 b"

definition v3cross :: "Vec3 \<Rightarrow> Vec3 \<Rightarrow> Vec3" where
  "v3cross a b =
     \<lparr>x3 = y3 a * z3 b - z3 a * y3 b,
      y3 = z3 a * x3 b - x3 a * z3 b,
      z3 = x3 a * y3 b - y3 a * x3 b\<rparr>"

definition v3norm :: "Vec3 \<Rightarrow> real" where
  "v3norm a = hypot3d (x3 a) (y3 a) (z3 a)"

definition v3scale :: "Vec3 \<Rightarrow> real \<Rightarrow> Vec3" where
  "v3scale a s = \<lparr>x3 = x3 a * s, y3 = y3 a * s, z3 = z3 a * s\<rparr>"

definition v3add :: "Vec3 \<Rightarrow> Vec3 \<Rightarrow> Vec3" where
  "v3add a b = \<lparr>x3 = x3 a + x3 b, y3 = y3 a + y3 b, z3 = z3 a + z3 b\<rparr>"

definition v3unit :: "Vec3 \<Rightarrow> Vec3" where
  "v3unit a = (let L = or1 (v3norm a) in \<lparr>x3 = x3 a / L, y3 = y3 a / L, z3 = z3 a / L\<rparr>)"

definition liftToUpperHemisphere :: "Vec2 \<Rightarrow> Vec3" where
  "liftToUpperHemisphere p =
     (let r2 = x2 p * x2 p + y2 p * y2 p;
          z = sqrt (max 0 (1 - r2))
      in v3unit \<lparr>x3 = x2 p, y3 = y2 p, z3 = z\<rparr>)"

text \<open>
  The point \<^verbatim>\<open>X\<close> of a great-circle loop at the parameter \<^verbatim>\<open>t\<close>, in the basis
  \<^verbatim>\<open>u\<close>, \<^verbatim>\<open>v\<close>: the expression that \<^verbatim>\<open>greatCircleProjectedClosed\<close> and
  \<^verbatim>\<open>greatCircleFromNormalAndPoint\<close> evaluate in each round of their loops.
\<close>

definition circlePointX :: "Vec3 \<Rightarrow> Vec3 \<Rightarrow> real \<Rightarrow> Vec3" where
  "circlePointX u v t =
     v3unit \<lparr>x3 = x3 u * cos t + x3 v * sin t,
             y3 = y3 u * cos t + y3 v * sin t,
             z3 = z3 u * cos t + z3 v * sin t\<rparr>"

definition geodesicSphereProjectedSegment :: "Vec2 \<Rightarrow> Vec2 \<Rightarrow> nat \<Rightarrow> Vec2 list" where
  "geodesicSphereProjectedSegment p q steps =
     (let a = liftToUpperHemisphere p;
          b = liftToUpperHemisphere q;
          dt = clampNum (v3dot a b) (- 1) 1;
          omega = arccos dt
      in if omega < 1 / 10 ^ 8 then [p, q]
         else
           (let sinOm = sin omega;
                ps = List.map_filter
                       (\<lambda>i. let t = real i / real steps;
                                s1 = sin ((1 - t) * omega) / sinOm;
                                s2 = sin (t * omega) / sinOm;
                                xx = s1 * x3 a + s2 * x3 b;
                                yy = s1 * y3 a + s2 * y3 b;
                                zz = s1 * z3 a + s2 * z3 b;
                                u = v3unit \<lparr>x3 = xx, y3 = yy, z3 = zz\<rparr>
                            in if - (1 / 10 ^ 10) \<le> z3 u then Some \<lparr>x2 = x3 u, y2 = y3 u\<rparr>
                               else None)
                       [0..<Suc steps];
                ps' = (if ps \<noteq> [] then (ps[0 := p])[length ps - 1 := q] else ps)
            in if 2 \<le> length ps' then ps' else [p, q]))"

text \<open>The basis \<^verbatim>\<open>u\<close>, \<^verbatim>\<open>v\<close> of the plane of the great circle through the lifts of
  \<^verbatim>\<open>p\<close> and \<^verbatim>\<open>q\<close>, as \<^verbatim>\<open>greatCircleProjectedClosed\<close> builds it from the unit normal
  \<^verbatim>\<open>nn\<close>.\<close>

definition planeBasis :: "Vec3 \<Rightarrow> Vec3 \<Rightarrow> Vec3 \<times> Vec3" where
  "planeBasis a nn =
     (let proj = v3scale nn (v3dot a nn);
          u = v3unit (v3add a (v3scale proj (- 1)));
          v = v3unit (v3cross nn u)
      in (u, v))"

definition greatCircleProjectedClosed :: "Vec2 \<Rightarrow> Vec2 \<Rightarrow> nat \<Rightarrow> Vec2 list" where
  "greatCircleProjectedClosed p q steps =
     (let a = liftToUpperHemisphere p;
          b = liftToUpperHemisphere q;
          n = v3cross a b;
          nL = v3norm n
      in if nL < 1 / 10 ^ 10 then geodesicSphereProjectedSegment p q steps
         else
           (let nn = v3unit n;
                (u, v) = planeBasis a nn
            in map (\<lambda>i. let t = (2 * pi * real i) / real steps;
                           X = circlePointX u v t
                       in \<lparr>x2 = x3 X, y2 = y3 X\<rparr>)
                   [0..<Suc steps]))"

definition greatCircleFromNormalAndPoint :: "Vec3 \<Rightarrow> Vec2 \<Rightarrow> nat \<Rightarrow> Vec2 list" where
  "greatCircleFromNormalAndPoint n through steps =
     (let P = liftToUpperHemisphere through;
          (u, v) = planeBasis P n
      in List.map_filter
           (\<lambda>i. let t = (2 * pi * real i) / real steps;
                    X = circlePointX u v t
                in if - (1 / 10 ^ 10) \<le> z3 X then Some \<lparr>x2 = x3 X, y2 = y3 X\<rparr> else None)
           [0..<Suc steps])"

definition sphericalPerpendicularGreatCircleThroughPoint ::
  "Vec2 \<Rightarrow> Vec2 \<Rightarrow> Vec2 \<Rightarrow> nat \<Rightarrow> Vec2 list" where
  "sphericalPerpendicularGreatCircleThroughPoint baseP baseQ through steps =
     (let a = liftToUpperHemisphere baseP;
          b = liftToUpperHemisphere baseQ;
          nBase = v3unit (v3cross a b);
          P = liftToUpperHemisphere through;
          nPerp = v3cross P nBase
      in if v3norm nPerp < 1 / 10 ^ 10 then
           (let alt = v3cross P \<lparr>x3 = 1, y3 = 0, z3 = 0\<rparr>
            in if v3norm alt < 1 / 10 ^ 10 then []
               else greatCircleFromNormalAndPoint (v3unit alt) through steps)
         else greatCircleFromNormalAndPoint (v3unit nPerp) through steps)"

text \<open>\<^verbatim>\<open>geodesicBetween(space, p, q, steps = 260)\<close> and
  \<^verbatim>\<open>geodesicLineThrough(space, p, q, steps = 520)\<close>; their last \<^verbatim>\<open>return [p, q]\<close> is
  not reachable for a \<^verbatim>\<open>SpaceId\<close>.\<close>

definition geodesicBetween :: "SpaceId \<Rightarrow> Vec2 \<Rightarrow> Vec2 \<Rightarrow> nat \<Rightarrow> Vec2 list" where
  "geodesicBetween sp p q steps =
     (if sp = E then [p, q]
      else if sp = H then geodesicPoincareSegment p q steps
      else if sp = S then geodesicSphereProjectedSegment p q steps
      else [p, q])"

definition geodesicLineThrough :: "SpaceId \<Rightarrow> Vec2 \<Rightarrow> Vec2 \<Rightarrow> nat \<Rightarrow> Vec2 list" where
  "geodesicLineThrough sp p q steps =
     (if sp = E then
        (let dx = x2 q - x2 p; dy = y2 q - y2 p;
             L = or1 (hypot dx dy);
             ux = dx / L; uy = dy / L;
             big = 5
         in [\<lparr>x2 = x2 p - ux * big, y2 = y2 p - uy * big\<rparr>,
             \<lparr>x2 = x2 p + ux * big, y2 = y2 p + uy * big\<rparr>])
      else if sp = H then geodesicPoincareFullLine p q steps
      else if sp = S then greatCircleProjectedClosed p q steps
      else [p, q])"

section \<open>The two-step line operation of the application\<close>

text \<open>
  The canvas click handler of the application, in a line operation (parallel or
  perpendicular), sends the frog to the clicked point and starts an interval timer. The
  callback of that timer waits until the animation job is idle, then builds the line. The
  part of the application state that the callback reads and writes is kept in a record:
  the engine state (\<^verbatim>\<open>stateRef.current\<close>), the text of the measure panel, the line
  operation mode, the line being revealed (\<^verbatim>\<open>magicLineRef.current\<close>), the committed
  lines, and whether the timer is still installed.
\<close>

datatype LineOpMode = LineOp_NONE | PARALLEL_0 | PARALLEL_1 | PERPENDICULAR

text \<open>
  The texts that the callback writes to the measure panel: the fixed failure text (in
  French, "operation impossible at the indicated place") and the success text
  ("operation finished: line created"). Any other text is left as a string.
\<close>

datatype PanelText = OPERATION_IMPOSSIBLE | OPERATION_TERMINEE | OtherText string

text \<open>A line object; its identifier is a prefix and the clock value it was made at.\<close>

record LineObject =
  line_id :: "string \<times> nat"
  line_pts :: "Vec2 list"
  baseP :: Vec2
  baseQ :: Vec2
  line_space :: SpaceId

record MagicLine =
  ml_active :: bool
  ml_pts :: "Vec2 list"
  ml_t :: real
  finalLine :: "LineObject option"

record AppState =
  engine :: EngineState
  measurePanelText :: PanelText
  lineOpMode :: LineOpMode
  magicLine :: "MagicLine option"
  lines :: "LineObject list"
  timerInstalled :: bool

text \<open>
  The polyline that the callback builds, or \<open>None\<close> where the callback gives up before
  building one (the branch of the sphere for a mode other than the perpendicular).
\<close>

definition lineOpPoints :: "SpaceId \<Rightarrow> LineOpMode \<Rightarrow> LineObject \<Rightarrow> Vec2 \<Rightarrow> Vec2 list option" where
  "lineOpPoints sp mode base w =
     (if sp = E then
        (let d = \<lparr>x2 = x2 (baseQ base) - x2 (baseP base), y2 = y2 (baseQ base) - y2 (baseP base)\<rparr>;
             L = or1 (hypot (x2 d) (y2 d));
             u = \<lparr>x2 = x2 d / L, y2 = y2 d / L\<rparr>
         in if mode = PERPENDICULAR then
              (let perp = \<lparr>x2 = - y2 u, y2 = x2 u\<rparr>; big = 5
               in Some [\<lparr>x2 = x2 w - x2 perp * big, y2 = y2 w - y2 perp * big\<rparr>,
                        \<lparr>x2 = x2 w + x2 perp * big, y2 = y2 w + y2 perp * big\<rparr>])
            else
              (let big = 5
               in Some [\<lparr>x2 = x2 w - x2 u * big, y2 = y2 w - y2 u * big\<rparr>,
                        \<lparr>x2 = x2 w + x2 u * big, y2 = y2 w + y2 u * big\<rparr>]))
      else if sp = H then
        (if mode = PERPENDICULAR then
           Some (hyperbolicPerpendicularThroughPoint (baseP base) (baseQ base) w 560)
         else
           (let which = (if mode = PARALLEL_0 then False else True)
            in Some (hyperbolicParallelThroughPoint (baseP base) (baseQ base) w which 560)))
      else if sp = S then
        (if mode = PERPENDICULAR then
           Some (sphericalPerpendicularGreatCircleThroughPoint (baseP base) (baseQ base) w 560)
         else None)
      else Some [])"

text \<open>One firing of the timer callback, at the clock value \<open>now\<close>.\<close>

definition lineOpTick ::
  "SpaceId \<Rightarrow> LineOpMode \<Rightarrow> LineObject \<Rightarrow> Vec2 \<Rightarrow> nat \<Rightarrow> AppState \<Rightarrow> AppState" where
  "lineOpTick sp mode base w now st =
     (if active (anim (engine st)) then st
      else case lineOpPoints sp mode base w of
        None \<Rightarrow>
          st\<lparr>measurePanelText := OPERATION_IMPOSSIBLE, lineOpMode := LineOp_NONE,
             timerInstalled := False\<rparr>
      | Some ps \<Rightarrow>
          if length ps < 2 then
            st\<lparr>measurePanelText := OPERATION_IMPOSSIBLE, lineOpMode := LineOp_NONE,
               timerInstalled := False\<rparr>
          else
            st\<lparr>magicLine := Some \<lparr>ml_active = True, ml_pts = ps, ml_t = 0,
                   finalLine = Some \<lparr>line_id = (''Op_'', now), line_pts = ps, baseP = ps ! 0,
                     baseQ = ps ! (length ps - 1), line_space = sp\<rparr>\<rparr>,
               measurePanelText := OPERATION_TERMINEE, lineOpMode := LineOp_NONE,
               timerInstalled := False\<rparr>)"

text \<open>
  The part of the main loop that finishes the reveal of a line: it advances
  \<^verbatim>\<open>ml.t\<close> and, once it reaches \<open>1\<close>, appends the final line to the committed lines.
\<close>

definition revealStep :: "real \<Rightarrow> AppState \<Rightarrow> AppState" where
  "revealStep dt st =
     (case magicLine st of
        None \<Rightarrow> st
      | Some ml \<Rightarrow>
          if ml_active ml then
            (let t' = clamp (ml_t ml + dt / (45 / 100)) 0 1
             in if 1 \<le> t' then
                  st\<lparr>magicLine := Some (ml\<lparr>ml_t := t', ml_active := False\<rparr>),
                     lines := (case finalLine ml of
                                 Some fl \<Rightarrow> lines st @ [fl]
                               | None \<Rightarrow> lines st)\<rparr>
                else st\<lparr>magicLine := Some (ml\<lparr>ml_t := t'\<rparr>)\<rparr>)
          else st)"

section \<open>The samples of the closed great circle\<close>


section \<open>The angle as the specification describes it\<close>

text \<open>
  The specification gives the angle at the vertex \<open>B\<close> among \<open>A\<close>, \<open>B\<close>, \<open>C\<close> as the
  Euclidean-direction formula on the raw coordinates: the arc cosine of the clamped dot
  product of the normalized vectors \<open>A - B\<close> and \<open>C - B\<close>. This definition follows its
  words; it is compared with \<open>angleHand\<close> and \<open>angleAt\<close> below, for \<open>A\<close> and \<open>C\<close> distinct
  from \<open>B\<close>.
\<close>

definition euclidDirectionAngle :: "Vec2 \<Rightarrow> Vec2 \<Rightarrow> Vec2 \<Rightarrow> real" where
  "euclidDirectionAngle A B C =
     (let u = sub2 A B;
          v = sub2 C B
      in arccos (clamp (dot2 (mul2 u (1 / hypot2 u)) (mul2 v (1 / hypot2 v))) (- 1) 1))"

section \<open>Driving the animation frame by frame\<close>

text \<open>
  The main loop of the application calls \<open>stepAnimation\<close> once per frame on the current
  state, with the time \<open>dt\<close> since the previous frame (capped at \<open>0.033\<close> seconds), and
  stores the result as the current state. Running it over a list of frame times is the
  left fold of \<open>stepAnimation\<close>.
\<close>

definition stepsAnimation :: "EngineState \<Rightarrow> real list \<Rightarrow> EngineState" where
  "stepsAnimation st dts = foldl stepAnimation st dts"

section \<open>The circle as the specification describes it\<close>

text \<open>
  The specification gives the hyperbolic circle of radius \<open>r\<close> around \<open>p\<close> as the Euclidean
  circle around \<open>p\<close> of radius \<open>tanh (r/2) (1 - |p|\<^sup>2) / (1 - |p|\<^sup>2 tanh (r/2)\<^sup>2)\<close>, sampled
  uniformly in angle. These two definitions follow its words, with the hyperbolic tangent
  of the library; they are compared with \<open>buildCircleTrace\<close> below.
\<close>

definition hypCircleRho :: "Vec2 \<Rightarrow> real \<Rightarrow> real" where
  "hypCircleRho p r =
     tanh (r / 2) * (1 - (hypot2 p)\<^sup>2) / (1 - (hypot2 p)\<^sup>2 * (tanh (r / 2))\<^sup>2)"

definition euclidCircleSample :: "Vec2 \<Rightarrow> real \<Rightarrow> nat \<Rightarrow> nat \<Rightarrow> Vec2" where
  "euclidCircleSample c rho n i =
     \<lparr>x2 = x2 c + rho * cos (2 * pi * real i / real n),
      y2 = y2 c + rho * sin (2 * pi * real i / real n)\<rparr>"

section \<open>Facts about the primitives\<close>

lemma hypot_sq: "(hypot a b)\<^sup>2 = a * a + b * b"
  unfolding hypot_def by (simp add: power2_eq_square [symmetric])

lemma hypot2_sq: "(hypot2 v)\<^sup>2 = dot2 v v"
  unfolding hypot2_def dot2_def by (rule hypot_sq)

lemma hypot_nonneg: "0 \<le> hypot a b"
  unfolding hypot_def by simp

lemma hypot_eq_0_iff: "hypot a b = 0 \<longleftrightarrow> a = 0 \<and> b = 0"
proof -
  have "a * a + b * b = 0 \<longleftrightarrow> a = 0 \<and> b = 0"
    by simp
  then show ?thesis unfolding hypot_def by simp
qed

lemma hypot_zero_right: "hypot a 0 = \<bar>a\<bar>"
  unfolding hypot_def by (simp add: power2_eq_square [symmetric])

section \<open>Bounds on the logarithm of three\<close>

text \<open>
  Both bounds come from the Taylor polynomial of degree nine of the exponential with the
  Lagrange form of the remainder.
\<close>

lemma exp_10987_lower: "3 \<le> exp (10987 / 10000 :: real)"
proof -
  obtain t where
    e: "exp (10987 / 10000 :: real) =
          (\<Sum>m<10. (10987 / 10000) ^ m / fact m) + exp t / fact 10 * (10987 / 10000) ^ 10"
    using Maclaurin_exp_le [of "10987 / 10000" 10] by blast
  have "0 \<le> exp t / fact 10 * (10987 / 10000 :: real) ^ 10" by simp
  moreover have "(3::real) \<le> (\<Sum>m<10. (10987 / 10000) ^ m / fact m)"
    by (simp add: lessThan_nat_numeral lessThan_Suc fact_numeral power_divide)
  ultimately show ?thesis using e by linarith
qed

lemma exp_10985_upper: "exp (10985 / 10000 :: real) \<le> 3"
proof -
  define x :: real where "x = 10985 / 10000"
  define c :: real where "c = x ^ 10 / fact 10"
  define s :: real where "s = (\<Sum>m<10. x ^ m / fact m)"
  obtain t where t: "\<bar>t\<bar> \<le> \<bar>x\<bar>"
    and e: "exp x = (\<Sum>m<10. x ^ m / fact m) + exp t / fact 10 * x ^ 10"
    using Maclaurin_exp_le [of x 10] by blast
  have e': "exp x = s + exp t * c" using e by (simp add: c_def s_def)
  have "t \<le> x" using t by (simp add: x_def)
  then have "exp t \<le> exp x" by simp
  moreover have c0: "0 \<le> c" by (simp add: x_def c_def)
  ultimately have "exp t * c \<le> exp x * c"
    by (rule mult_right_mono)
  with e' have "exp x - exp x * c \<le> s" by linarith
  then have 1: "exp x * (1 - c) \<le> s" by (simp add: algebra_simps)
  have 2: "s \<le> 3 * (1 - c)"
    by (simp add: s_def c_def x_def lessThan_nat_numeral lessThan_Suc fact_numeral power_divide)
  have 3: "0 < 1 - c"
    by (simp add: c_def x_def fact_numeral power_divide)
  from 1 2 have "exp x * (1 - c) \<le> 3 * (1 - c)" by linarith
  then have "exp x \<le> 3" using 3 by (rule mult_right_le_imp_le)
  then show ?thesis by (simp add: x_def)
qed

lemma ln3_bounds: "\<bar>ln (3::real) - 10986 / 10000\<bar> \<le> 1 / 10000"
proof -
  have "ln (exp (10985 / 10000 :: real)) \<le> ln 3"
    using exp_10985_upper by (subst ln_le_cancel_iff) simp_all
  then have a: "10985 / 10000 \<le> ln (3::real)" by simp
  have "ln 3 \<le> ln (exp (10987 / 10000 :: real))"
    using exp_10987_lower by (subst ln_le_cancel_iff) simp_all
  then have b: "ln (3::real) \<le> 10987 / 10000" by simp
  show ?thesis using a b unfolding abs_le_iff by linarith
qed

lemma arcosh_5_3: "arcosh (5 / 3 :: real) = ln 3"
proof -
  have "sqrt ((5 / 3)\<^sup>2 - 1 :: real) = 4 / 3"
    by (rule real_sqrt_unique) (simp_all add: power2_eq_square)
  then show ?thesis by (simp add: arcosh_real_def)
qed

section \<open>The hyperbolic distance\<close>

text \<open>
  Claim C1. For points \<open>A\<close> and \<open>B\<close> strictly inside the unit disk, \<open>distanceExact\<close> in the
  space \<open>H\<close> returns \<open>arcosh (1 + 2 |A - B|\<^sup>2 / ((1 - |A|\<^sup>2) (1 - |B|\<^sup>2)))\<close>, the argument
  of \<open>arcosh\<close> being clamped from below by one. At \<open>(0, 0)\<close> and \<open>(1/2, 0)\<close> the result is
  \<open>arcosh (5/3)\<close>, which lies within \<open>1e-4\<close> of \<open>1.0986\<close>.
\<close>

theorem distanceExact_hyperbolic:
  "((hypot2 A)\<^sup>2 < 1 \<and> (hypot2 B)\<^sup>2 < 1 \<longrightarrow>
      distanceExact H A B =
        Fin (arcosh (max 1 (1 + 2 * (hypot2 (sub2 A B))\<^sup>2 /
                                  ((1 - (hypot2 A)\<^sup>2) * (1 - (hypot2 B)\<^sup>2))))))
   \<and> distanceExact H \<lparr>x2 = 0, y2 = 0\<rparr> \<lparr>x2 = 1 / 2, y2 = 0\<rparr> = Fin (arcosh (5 / 3))
   \<and> \<bar>arcosh (5 / 3 :: real) - 10986 / 10000\<bar> \<le> 1 / 10000"
proof (intro conjI impI)
  assume inside: "(hypot2 A)\<^sup>2 < 1 \<and> (hypot2 B)\<^sup>2 < 1"
  then have "0 < (1 - dot2 A A) * (1 - dot2 B B)"
    by (simp add: hypot2_sq)
  then have "\<not> (1 - (x2 A * x2 A + y2 A * y2 A)) * (1 - (x2 B * x2 B + y2 B * y2 B)) \<le> 0"
    by (simp add: dot2_def not_le)
  then show "distanceExact H A B =
      Fin (arcosh (max 1 (1 + 2 * (hypot2 (sub2 A B))\<^sup>2 /
                                ((1 - (hypot2 A)\<^sup>2) * (1 - (hypot2 B)\<^sup>2)))))"
    by (simp add: distanceExact_def Let_def hypot2_sq dot2_def sub2_def)
next
  show "distanceExact H \<lparr>x2 = 0, y2 = 0\<rparr> \<lparr>x2 = 1 / 2, y2 = 0\<rparr> = Fin (arcosh (5 / 3))"
    by (simp add: distanceExact_def Let_def)
next
  show "\<bar>arcosh (5 / 3 :: real) - 10986 / 10000\<bar> \<le> 1 / 10000"
    using ln3_bounds by (simp only: arcosh_5_3)
qed

theorem distanceExact_hyperbolic_witness:
  "(hypot2 \<lparr>x2 = 1 / 10, y2 = 1 / 5\<rparr>)\<^sup>2 < 1 \<and> (hypot2 \<lparr>x2 = 3 / 10, y2 = - (2 / 5)\<rparr>)\<^sup>2 < 1
   \<and> distanceExact H \<lparr>x2 = 1 / 10, y2 = 1 / 5\<rparr> \<lparr>x2 = 3 / 10, y2 = - (2 / 5)\<rparr>
       = Fin (arcosh (121 / 57))"
proof -
  have h: "(hypot2 \<lparr>x2 = 1 / 10, y2 = 1 / 5\<rparr>)\<^sup>2 < 1 \<and> (hypot2 \<lparr>x2 = 3 / 10, y2 = - (2 / 5)\<rparr>)\<^sup>2 < 1"
    by (simp add: hypot2_sq dot2_def)
  with distanceExact_hyperbolic [of "\<lparr>x2 = 1 / 10, y2 = 1 / 5\<rparr>" "\<lparr>x2 = 3 / 10, y2 = - (2 / 5)\<rparr>"]
  have "distanceExact H \<lparr>x2 = 1 / 10, y2 = 1 / 5\<rparr> \<lparr>x2 = 3 / 10, y2 = - (2 / 5)\<rparr> =
      Fin (arcosh (max 1 (1 + 2 * (hypot2 (sub2 \<lparr>x2 = 1 / 10, y2 = 1 / 5\<rparr> \<lparr>x2 = 3 / 10, y2 = - (2 / 5)\<rparr>))\<^sup>2 /
        ((1 - (hypot2 \<lparr>x2 = 1 / 10, y2 = 1 / 5\<rparr>)\<^sup>2) * (1 - (hypot2 \<lparr>x2 = 3 / 10, y2 = - (2 / 5)\<rparr>)\<^sup>2)))))"
    by blast
  then show ?thesis using h by (simp add: hypot2_sq dot2_def sub2_def)
qed

section \<open>The hyperbolic segment through the origin\<close>

text \<open>
  Claim C8. When \<open>p\<close>, \<open>q\<close> and the origin are collinear, in that the cross product
  \<open>p.x q.y - p.y q.x\<close> is below \<open>1e-7\<close> in absolute value, \<open>geodesicBetween\<close> in the space
  \<open>H\<close> returns the two-point chord \<open>[p, q]\<close>, whatever the number of steps.
\<close>

theorem geodesicBetween_H_collinear:
  "\<bar>x2 p * y2 q - y2 p * x2 q\<bar> < 1 / 10 ^ 7 \<Longrightarrow> geodesicBetween H p q steps = [p, q]"
  by (simp add: geodesicBetween_def geodesicPoincareSegment_def)

theorem geodesicBetween_H_collinear_witness:
  "\<bar>x2 \<lparr>x2 = 0, y2 = 0\<rparr> * y2 \<lparr>x2 = 1 / 2, y2 = 0\<rparr> - y2 \<lparr>x2 = 0, y2 = 0\<rparr> * x2 \<lparr>x2 = 1 / 2, y2 = 0\<rparr>\<bar>
     < (1::real) / 10 ^ 7
   \<and> geodesicBetween H \<lparr>x2 = 0, y2 = 0\<rparr> \<lparr>x2 = 1 / 2, y2 = 0\<rparr> 260
       = [\<lparr>x2 = 0, y2 = 0\<rparr>, \<lparr>x2 = 1 / 2, y2 = 0\<rparr>]"
proof -
  have h: "\<bar>x2 \<lparr>x2 = 0, y2 = 0\<rparr> * y2 \<lparr>x2 = 1 / 2, y2 = 0\<rparr>
             - y2 \<lparr>x2 = 0, y2 = 0\<rparr> * x2 \<lparr>x2 = 1 / 2, y2 = 0\<rparr>\<bar> < (1::real) / 10 ^ 7"
    by simp
  from geodesicBetween_H_collinear [OF h, of 260] h show ?thesis by blast
qed

section \<open>Tracing a circle leaves the sphere state alone\<close>

text \<open>
  Claim C10. In the spherical model \<open>buildCircleTrace\<close> returns its input state as the
  next state, so \<open>s_p\<close>, \<open>s_t\<close> and every other field are unchanged, while the returned
  path is the sampled circle around \<open>s_p\<close>. In the Euclidean and in the hyperbolic model
  the next state differs from the input state in the position only, which becomes the
  last point of the path.
\<close>

theorem buildCircleTrace_sphere_frame:
  "(space st = S \<longrightarrow>
      next (buildCircleTrace st r) = st
      \<and> path (buildCircleTrace st r) = sphereCirclePoints (s_p st) r 320)
   \<and> (space st = E \<longrightarrow>
        next (buildCircleTrace st r) = st\<lparr>e_pos := last (path (buildCircleTrace st r))\<rparr>)
   \<and> (space st = H \<longrightarrow>
        next (buildCircleTrace st r) = st\<lparr>h_pos := last (path (buildCircleTrace st r))\<rparr>)"
  by (simp add: buildCircleTrace_def Let_def last_conv_nth split: option.split del: upt_Suc)

theorem buildCircleTrace_sphere_frame_witness:
  "space (createInitialState S) = S
   \<and> next (buildCircleTrace (createInitialState S) 1) = createInitialState S
   \<and> space (createInitialState E) = E
   \<and> e_pos (next (buildCircleTrace (createInitialState E) 1)) = \<lparr>x2 = 1, y2 = 0\<rparr>
   \<and> space (createInitialState H) = H
   \<and> h_pos (next (buildCircleTrace (createInitialState H) 0)) = \<lparr>x2 = 0, y2 = 0\<rparr>"
proof -
  have s: "space (createInitialState S) = S" "space (createInitialState E) = E"
    "space (createInitialState H) = H"
    by (simp_all add: createInitialState_def Let_def)
  have 1: "next (buildCircleTrace (createInitialState S) 1) = createInitialState S"
    using buildCircleTrace_sphere_frame [of "createInitialState S" 1] s by blast
  have lE: "last (path (buildCircleTrace (createInitialState E) 1)) = \<lparr>x2 = 1, y2 = 0\<rparr>"
    by (simp add: buildCircleTrace_def createInitialState_def Let_def)
  have 2: "e_pos (next (buildCircleTrace (createInitialState E) 1)) = \<lparr>x2 = 1, y2 = 0\<rparr>"
    using buildCircleTrace_sphere_frame [of "createInitialState E" 1] s lE by simp
  have lH: "last (path (buildCircleTrace (createInitialState H) 0)) = \<lparr>x2 = 0, y2 = 0\<rparr>"
    by (simp add: buildCircleTrace_def createInitialState_def Let_def tanh_e_def Math_exp_def
        dot2_def)
  have 3: "h_pos (next (buildCircleTrace (createInitialState H) 0)) = \<lparr>x2 = 0, y2 = 0\<rparr>"
    using buildCircleTrace_sphere_frame [of "createInitialState H" 0] s lH by simp
  show ?thesis using s 1 2 3 by simp
qed

section \<open>No parallel on the sphere\<close>

text \<open>
  Claim C9. In the spherical model a request for a parallel (either end) builds no
  polyline. Every firing of the timer callback leaves the line being revealed, the
  committed lines and the engine state as they are; once the animation job is idle the
  callback writes the fixed failure text, leaves the line operation mode and removes the
  timer, and changes nothing else.
\<close>

theorem spherical_parallel_rejected:
  "mode = PARALLEL_0 \<or> mode = PARALLEL_1 \<Longrightarrow>
     lineOpPoints S mode base w = None
     \<and> magicLine (lineOpTick S mode base w now st) = magicLine st
     \<and> lines (lineOpTick S mode base w now st) = lines st
     \<and> engine (lineOpTick S mode base w now st) = engine st
     \<and> (\<not> active (anim (engine st)) \<longrightarrow>
          lineOpTick S mode base w now st =
            st\<lparr>measurePanelText := OPERATION_IMPOSSIBLE, lineOpMode := LineOp_NONE,
               timerInstalled := False\<rparr>)"
  by (auto simp add: lineOpPoints_def lineOpTick_def)

theorem spherical_parallel_rejected_witness:
  "(PARALLEL_1 = PARALLEL_0 \<or> PARALLEL_1 = PARALLEL_1)
   \<and> \<not> active (anim (createInitialState S))
   \<and> lineOpTick S PARALLEL_1
        \<lparr>line_id = (''L_'', 0), line_pts = [], baseP = \<lparr>x2 = 0, y2 = 0\<rparr>,
          baseQ = \<lparr>x2 = 1 / 2, y2 = 0\<rparr>, line_space = S\<rparr>
        \<lparr>x2 = 0, y2 = 1 / 2\<rparr> 7
        \<lparr>engine = createInitialState S, measurePanelText = OtherText [], lineOpMode = PARALLEL_1,
          magicLine = None, lines = [], timerInstalled = True\<rparr>
      = \<lparr>engine = createInitialState S, measurePanelText = OPERATION_IMPOSSIBLE,
          lineOpMode = LineOp_NONE, magicLine = None, lines = [], timerInstalled = False\<rparr>"
proof -
  have m: "PARALLEL_1 = PARALLEL_0 \<or> PARALLEL_1 = PARALLEL_1" by simp
  have idle: "\<not> active (anim (createInitialState S))"
    by (simp add: createInitialState_def Let_def)
  show ?thesis
    using spherical_parallel_rejected [OF m,
        of "\<lparr>line_id = (''L_'', 0), line_pts = [], baseP = \<lparr>x2 = 0, y2 = 0\<rparr>,
              baseQ = \<lparr>x2 = 1 / 2, y2 = 0\<rparr>, line_space = S\<rparr>"
           "\<lparr>x2 = 0, y2 = 1 / 2\<rparr>" 7
           "\<lparr>engine = createInitialState S, measurePanelText = OtherText [],
              lineOpMode = PARALLEL_1, magicLine = None, lines = [], timerInstalled = True\<rparr>"]
      idle
    by simp
qed

text \<open>
  A frame of the main loop after such a rejection reveals and commits exactly what it
  would have without the request.
\<close>

lemma spherical_parallel_adds_no_line:
  "mode = PARALLEL_0 \<or> mode = PARALLEL_1 \<Longrightarrow>
     lines (revealStep dt (lineOpTick S mode base w now st)) = lines (revealStep dt st)
     \<and> magicLine (revealStep dt (lineOpTick S mode base w now st)) = magicLine (revealStep dt st)"
  by (auto simp add: lineOpPoints_def lineOpTick_def revealStep_def Let_def split: option.splits)

section \<open>Following a path to its end\<close>

lemma walkPath_stop:
  "\<not> (0 < rem \<and> i < length pth - 1) \<Longrightarrow> walkPath pth i t rem cur = (i, t, rem, cur)"
  by (subst walkPath.simps) auto

lemma walkPath_two_exhaust:
  assumes "hypot2 (sub2 B A) < rem"
  shows "walkPath [A, B] 0 0 rem cur = (1, 0, rem - hypot2 (sub2 B A), B)"
proof -
  have "0 \<le> hypot2 (sub2 B A)" by (simp add: hypot2_def hypot_nonneg)
  with assms have pos: "0 < rem" by linarith
  have "walkPath [A, B] 0 0 rem cur = walkPath [A, B] (0 + 1) 0 (rem - hypot2 (sub2 B A)) B"
    using assms pos by (subst walkPath.simps) (simp add: Let_def)
  also have "\<dots> = (1, 0, rem - hypot2 (sub2 B A), B)"
    by (simp add: walkPath_stop)
  finally show ?thesis .
qed

text \<open>
  Claim C3. In the Euclidean model, at position \<open>(0, 0)\<close> with heading \<open>0\<close>,
  \<open>buildAdvancePath\<close> with distance \<open>1\<close> returns the path \<open>[(0, 0), (1, 0)]\<close> and, as the next
  state, the input state moved to \<open>(1, 0)\<close>. Once that path is scheduled with \<open>animatePath\<close>
  (on the current state, as the application does, or on the next state of the builder),
  one call of \<open>stepAnimation\<close> whose length budget \<open>speed * dt\<close> exceeds the length of the
  path leaves the job inactive and the Euclidean position at \<open>(1, 0)\<close>.
\<close>

theorem advance_path_exhausted_in_one_step:
  assumes "space st = E" and "e_pos st = \<lparr>x2 = 0, y2 = 0\<rparr>" and "e_theta st = 0"
    and "1 < spd * dt"
  shows "path (buildAdvancePath st 1) = [\<lparr>x2 = 0, y2 = 0\<rparr>, \<lparr>x2 = 1, y2 = 0\<rparr>]
    \<and> next (buildAdvancePath st 1) = Next (st\<lparr>e_pos := \<lparr>x2 = 1, y2 = 0\<rparr>\<rparr>)
    \<and> \<not> active (anim (stepAnimation
          (animatePath st (path (buildAdvancePath st 1)) spd add) dt))
    \<and> e_pos (stepAnimation
          (animatePath st (path (buildAdvancePath st 1)) spd add) dt) = \<lparr>x2 = 1, y2 = 0\<rparr>
    \<and> \<not> active (anim (stepAnimation
          (animatePath (st\<lparr>e_pos := \<lparr>x2 = 1, y2 = 0\<rparr>\<rparr>) (path (buildAdvancePath st 1)) spd add)
          dt))
    \<and> e_pos (stepAnimation
          (animatePath (st\<lparr>e_pos := \<lparr>x2 = 1, y2 = 0\<rparr>\<rparr>) (path (buildAdvancePath st 1)) spd add)
          dt)
        = \<lparr>x2 = 1, y2 = 0\<rparr>"
proof -
  have p: "path (buildAdvancePath st 1) = [\<lparr>x2 = 0, y2 = 0\<rparr>, \<lparr>x2 = 1, y2 = 0\<rparr>]"
    using assms by (simp add: buildAdvancePath_def Let_def add2_def mul2_def)
  have n: "next (buildAdvancePath st 1) = Next (st\<lparr>e_pos := \<lparr>x2 = 1, y2 = 0\<rparr>\<rparr>)"
    using assms by (simp add: buildAdvancePath_def Let_def add2_def mul2_def)
  have len: "hypot2 (sub2 \<lparr>x2 = 1, y2 = 0\<rparr> \<lparr>x2 = 0, y2 = 0\<rparr>) = 1"
    by (simp add: hypot2_def sub2_def hypot_zero_right)
  have w: "walkPath [\<lparr>x2 = 0, y2 = 0\<rparr>, \<lparr>x2 = 1, y2 = 0\<rparr>] 0 0 (spd * dt) cur
      = (1, 0, spd * dt - 1, \<lparr>x2 = 1, y2 = 0\<rparr>)" for cur
    using walkPath_two_exhaust [of "\<lparr>x2 = 1, y2 = 0\<rparr>" "\<lparr>x2 = 0, y2 = 0\<rparr>" "spd * dt" cur]
      assms(4)
    by (simp add: len)
  show ?thesis
    using assms(1) unfolding p n
    by (simp add: stepAnimation_def animatePath_def w Let_def split: option.split)
qed

theorem advance_path_exhausted_in_one_step_witness:
  "space (createInitialState E) = E
   \<and> e_pos (createInitialState E) = \<lparr>x2 = 0, y2 = 0\<rparr>
   \<and> e_theta (createInitialState E) = 0
   \<and> (1::real) < 7 / 10 * 2
   \<and> path (buildAdvancePath (createInitialState E) 1) = [\<lparr>x2 = 0, y2 = 0\<rparr>, \<lparr>x2 = 1, y2 = 0\<rparr>]
   \<and> \<not> active (anim (stepAnimation (animatePath (createInitialState E)
          (path (buildAdvancePath (createInitialState E) 1)) (7 / 10) False) 2))
   \<and> e_pos (stepAnimation (animatePath (createInitialState E)
          (path (buildAdvancePath (createInitialState E) 1)) (7 / 10) False) 2)
       = \<lparr>x2 = 1, y2 = 0\<rparr>"
proof -
  have h: "space (createInitialState E) = E"
    "e_pos (createInitialState E) = \<lparr>x2 = 0, y2 = 0\<rparr>"
    "e_theta (createInitialState E) = 0"
    "(1::real) < 7 / 10 * 2"
    by (simp_all add: createInitialState_def Let_def)
  from advance_path_exhausted_in_one_step [OF h, of False] h show ?thesis by blast
qed

text \<open>
  With a budget equal to the length of the path the loop stops on the last point without
  passing the index on, so the job is still active after that step; the following step
  ends it.
\<close>

lemma advance_path_exact_budget_stays_active:
  assumes "space st = E" and "spd * dt = 1"
  shows "active (anim (stepAnimation
           (animatePath st [\<lparr>x2 = 0, y2 = 0\<rparr>, \<lparr>x2 = 1, y2 = 0\<rparr>] spd False) dt))
    \<and> e_pos (stepAnimation
           (animatePath st [\<lparr>x2 = 0, y2 = 0\<rparr>, \<lparr>x2 = 1, y2 = 0\<rparr>] spd False) dt)
        = \<lparr>x2 = 1, y2 = 0\<rparr>"
proof -
  have len: "hypot2 \<lparr>x2 = 1, y2 = 0\<rparr> = 1"
    by (simp add: hypot2_def hypot_zero_right)
  have w: "walkPath [\<lparr>x2 = 0, y2 = 0\<rparr>, \<lparr>x2 = 1, y2 = 0\<rparr>] 0 0 1 cur
      = (0, 1, 0, \<lparr>x2 = 1, y2 = 0\<rparr>)" for cur
    by (subst walkPath.simps) (simp add: Let_def len add2_def mul2_def sub2_def)
  show ?thesis
    using assms
    by (simp add: stepAnimation_def animatePath_def w Let_def)
qed

section \<open>The hyperbolic builders and the unit disk\<close>

lemma hypot2_mul2: "hypot2 (mul2 p k) = \<bar>k\<bar> * hypot2 p"
proof -
  have "x2 p * k * (x2 p * k) + y2 p * k * (y2 p * k) = k\<^sup>2 * (x2 p * x2 p + y2 p * y2 p)"
    by (simp add: power2_eq_square algebra_simps)
  then show ?thesis
    by (simp add: hypot2_def hypot_def mul2_def real_sqrt_mult)
qed

lemma hypot2_norm2: "hypot2 (norm2 p) = 1"
proof (cases "0 < hypot2 p")
  case True
  then show ?thesis by (simp add: norm2_def Let_def hypot2_mul2)
next
  case False
  then show ?thesis by (simp add: norm2_def Let_def hypot2_def hypot_zero_right)
qed

lemma hypot2_rescaled: "hypot2 (mul2 (norm2 p) (999 / 1000)) = 999 / 1000"
  by (simp add: hypot2_mul2 hypot2_norm2)

lemma hypot2_less_1I: "dot2 p p < 1 \<Longrightarrow> hypot2 p < 1"
proof -
  assume "dot2 p p < 1"
  then have "(hypot2 p)\<^sup>2 < 1\<^sup>2" by (simp add: hypot2_sq)
  then show ?thesis by (rule power2_less_imp_less) simp
qed

lemma hypot2_less_1_iff: "hypot2 p < 1 \<longleftrightarrow> dot2 p p < 1"
proof
  assume "hypot2 p < 1"
  moreover have "0 \<le> hypot2 p" by (simp add: hypot2_def hypot_nonneg)
  ultimately have "(hypot2 p)\<^sup>2 < 1\<^sup>2" by (intro power_strict_mono) simp_all
  then show "dot2 p p < 1" by (simp add: hypot2_sq)
next
  assume "dot2 p p < 1"
  then show "hypot2 p < 1" by (rule hypot2_less_1I)
qed

text \<open>The guard that all hyperbolic builders apply to a candidate point, for a threshold
  on the squared norm that is at most one.\<close>

lemma disk_clamp:
  assumes "thr \<le> 1"
  shows "hypot2 (if dot2 p p < thr then p else mul2 (norm2 p) (999 / 1000)) < 1
    \<and> ((hypot2 (if dot2 p p < thr then p else mul2 (norm2 p) (999 / 1000)))\<^sup>2 < thr
        \<or> hypot2 (if dot2 p p < thr then p else mul2 (norm2 p) (999 / 1000)) = 999 / 1000)"
proof (cases "dot2 p p < thr")
  case True
  then have "dot2 p p < 1" using assms by linarith
  then have "hypot2 p < 1" by (rule hypot2_less_1I)
  then show ?thesis using True by (simp add: hypot2_sq)
next
  case False
  then show ?thesis by (simp add: hypot2_rescaled)
qed

lemma disk_clamp_9999:
  "hypot2 (if 9999 / 10000 \<le> dot2 p p then mul2 (norm2 p) (999 / 1000) else p) < 1
   \<and> ((hypot2 (if 9999 / 10000 \<le> dot2 p p then mul2 (norm2 p) (999 / 1000) else p))\<^sup>2
         < 9999 / 10000
       \<or> hypot2 (if 9999 / 10000 \<le> dot2 p p then mul2 (norm2 p) (999 / 1000) else p)
         = 999 / 1000)"
proof (cases "9999 / 10000 \<le> dot2 p p")
  case True
  then show ?thesis by (simp add: hypot2_rescaled)
next
  case False
  then have "dot2 p p < 1" by simp
  then have "hypot2 p < 1" by (rule hypot2_less_1I)
  with False show ?thesis by (simp add: hypot2_sq)
qed

lemma ball_mapI: "(\<And>i. Q (f i)) \<Longrightarrow> \<forall>pt\<in>set (map f xs). Q pt"
  by simp

lemma ball_ifI:
  "(c \<Longrightarrow> \<forall>pt\<in>set xs. Q pt) \<Longrightarrow> (\<not> c \<Longrightarrow> \<forall>pt\<in>set ys. Q pt)
   \<Longrightarrow> \<forall>pt\<in>set (if c then xs else ys). Q pt"
  by simp

lemma hyperbolicGeodesicPoints_in_disk:
  "\<forall>pt\<in>set (hyperbolicGeodesicPoints a b n).
     hypot2 pt < 1 \<and> ((hypot2 pt)\<^sup>2 < 999 / 1000 \<or> hypot2 pt = 999 / 1000)"
  unfolding hyperbolicGeodesicPoints_def Let_def
  by (intro ball_ifI ball_mapI disk_clamp) simp_all

lemma hypot2_guardedNaN: "hypot2 guardedNaN = 999 / 1000"
  unfolding guardedNaN_def hypot2_mul2 by (simp add: hypot2_def hypot_zero_right)

lemma guardedNaN_value: "guardedNaN = \<lparr>x2 = 999 / 1000, y2 = 0\<rparr>"
  by (simp add: guardedNaN_def mul2_def)

lemma hyperbolicGeodesicPointsNaN_in_disk:
  "\<forall>pt\<in>set (hyperbolicGeodesicPointsNaN n).
     hypot2 pt < 1 \<and> ((hypot2 pt)\<^sup>2 < 999 / 1000 \<or> hypot2 pt = 999 / 1000)"
  unfolding hyperbolicGeodesicPointsNaN_def
  by (intro ball_mapI) (simp add: hypot2_guardedNaN)

subsection \<open>Where \<open>Math.exp\<close> overflows\<close>

text \<open>
  \<open>exp 709\<close> is below \<open>2 ^ 1024\<close> and \<open>exp 710\<close> is above: \<open>709 / 1024 < ln 2 < 710 / 1024\<close>,
  by the Taylor polynomials of the exponential.
\<close>

lemma exp_355_512_lower: "2 \<le> exp (355 / 512 :: real)"
proof -
  obtain t where
    e: "exp (355 / 512 :: real) =
          (\<Sum>m<7. (355 / 512) ^ m / fact m) + exp t / fact 7 * (355 / 512) ^ 7"
    using Maclaurin_exp_le [of "355 / 512" 7] by blast
  have "0 \<le> exp t / fact 7 * (355 / 512 :: real) ^ 7" by simp
  moreover have "(2::real) \<le> (\<Sum>m<7. (355 / 512) ^ m / fact m)"
    by (simp add: lessThan_nat_numeral lessThan_Suc fact_numeral power_divide)
  ultimately show ?thesis using e by linarith
qed

lemma exp_710_overflow: "2 ^ 1024 \<le> exp (710 :: real)"
proof -
  have "exp (710 :: real) = exp (355 / 512 * of_nat 1024)" by simp
  also have "\<dots> = exp (355 / 512 :: real) ^ 1024" by (rule exp_of_nat2_mult)
  finally have e: "exp (710 :: real) = exp (355 / 512) ^ 1024" .
  have "(2::real) ^ 1024 \<le> exp (355 / 512) ^ 1024"
    using exp_355_512_lower by (rule power_mono) simp
  then show ?thesis unfolding e .
qed

lemma exp_709_1024_upper: "exp (709 / 1024 :: real) < 2"
proof -
  define x :: real where "x = 709 / 1024"
  define c :: real where "c = x ^ 8 / fact 8"
  define s :: real where "s = (\<Sum>m<8. x ^ m / fact m)"
  obtain t where t: "\<bar>t\<bar> \<le> \<bar>x\<bar>"
    and e: "exp x = (\<Sum>m<8. x ^ m / fact m) + exp t / fact 8 * x ^ 8"
    using Maclaurin_exp_le [of x 8] by blast
  have e': "exp x = s + exp t * c" using e by (simp add: c_def s_def)
  have "t \<le> x" using t by (simp add: x_def)
  then have "exp t \<le> exp x" by simp
  moreover have c0: "0 \<le> c" by (simp add: x_def c_def)
  ultimately have "exp t * c \<le> exp x * c"
    by (rule mult_right_mono)
  with e' have "exp x - exp x * c \<le> s" by linarith
  then have 1: "exp x * (1 - c) \<le> s" by (simp add: algebra_simps)
  have 2: "s < 2 * (1 - c)"
    by (simp add: s_def c_def x_def lessThan_nat_numeral lessThan_Suc fact_numeral power_divide)
  have 3: "0 < 1 - c"
    by (simp add: c_def x_def fact_numeral power_divide)
  from 1 2 have "exp x * (1 - c) < 2 * (1 - c)" by linarith
  then have "exp x < 2" using 3 by (simp only: mult_less_cancel_right_pos)
  then show ?thesis by (simp add: x_def)
qed

lemma exp_709_no_overflow: "exp (709 :: real) < 2 ^ 1024"
proof -
  have "exp (709 :: real) = exp (709 / 1024 * of_nat 1024)" by simp
  also have "\<dots> = exp (709 / 1024 :: real) ^ 1024" by (rule exp_of_nat2_mult)
  finally have e: "exp (709 :: real) = exp (709 / 1024) ^ 1024" .
  have "exp (709 / 1024 :: real) ^ 1024 < 2 ^ 1024"
    using exp_709_1024_upper by (intro power_strict_mono) simp_all
  then show ?thesis unfolding e .
qed

lemma Math_exp_overflow_from_710: "710 \<le> v \<Longrightarrow> Math_exp v = Infinity"
proof -
  assume "710 \<le> v"
  then have "exp 710 \<le> exp v" by simp
  then have "2 ^ 1024 \<le> exp v" using exp_710_overflow by linarith
  then show ?thesis by (simp add: Math_exp_def)
qed

lemma Math_exp_finite_up_to_709: "v \<le> 709 \<Longrightarrow> Math_exp v = Fin (exp v)"
proof -
  assume "v \<le> 709"
  then have "exp v \<le> exp 709" by simp
  then have "exp v < 2 ^ 1024" using exp_709_no_overflow by linarith
  then show ?thesis by (simp add: Math_exp_def)
qed

lemma Math_exp_finite: "Math_exp v \<noteq> Infinity \<Longrightarrow> Math_exp v = Fin (exp v)"
  by (simp add: Math_exp_def split: if_splits)

subsection \<open>The engine's \<open>tanh\<close>\<close>

lemma tanh_exp2: "tanh v = (exp (2 * v) - 1) / (exp (2 * v) + 1)" for v :: real
proof -
  have e: "exp (2 * v) = exp v * exp v"
    by (subst exp_add [symmetric]) simp
  have i: "exp (- v) = 1 / exp v" by (simp add: exp_minus field_simps)
  have p: "0 < exp v" by simp
  have "tanh v = (exp v - exp (- v)) / (exp v + exp (- v))" by (rule tanh_altdef)
  also have "\<dots> = ((exp v - 1 / exp v) * exp v) / ((exp v + 1 / exp v) * exp v)"
    using p by (simp add: i)
  also have "\<dots> = (exp v * exp v - 1) / (exp v * exp v + 1)"
    using p by (simp add: algebra_simps)
  finally show ?thesis by (simp add: e)
qed

lemma tanh_abs_less_1: "\<bar>tanh v\<bar> < 1" for v :: real
proof -
  define e where "e = exp (2 * v)"
  have p: "0 < e" by (simp add: e_def)
  then have q: "0 < e + 1" by simp
  have "- 1 * (e + 1) < e - 1" using p by simp
  then have a: "- 1 < (e - 1) / (e + 1)" using q by (simp only: pos_less_divide_eq)
  have "e - 1 < 1 * (e + 1)" by simp
  then have b: "(e - 1) / (e + 1) < 1" using q by (simp only: pos_divide_less_eq)
  have "(e - 1) / (e + 1) < 1 \<and> - ((e - 1) / (e + 1)) < 1" using a b by linarith
  then show ?thesis unfolding tanh_exp2 e_def [symmetric] abs_less_iff .
qed

text \<open>
  The engine's \<open>tanh\<close> is the hyperbolic tangent as long as \<open>Math.exp\<close> stays finite, and
  \<^verbatim>\<open>NaN\<close> from there on.
\<close>

lemma tanh_e_finite: "Math_exp (2 * v) \<noteq> Infinity \<Longrightarrow> tanh_e v = Some (tanh v)"
  by (simp add: tanh_e_def Math_exp_finite tanh_exp2)

lemma tanh_e_overflow: "Math_exp (2 * v) = Infinity \<Longrightarrow> tanh_e v = None"
  by (simp add: tanh_e_def)

lemma tanh_e_Some:
  assumes "tanh_e v = Some t"
  shows "t = tanh v \<and> \<bar>t\<bar> < 1"
proof -
  have "Math_exp (2 * v) \<noteq> Infinity"
    using assms by (auto simp add: tanh_e_def)
  then have "tanh_e v = Some (tanh v)" by (rule tanh_e_finite)
  with assms have "t = tanh v" by simp
  then show ?thesis using tanh_abs_less_1 [of v] by simp
qed

subsection \<open>The points of the builders\<close>

text \<open>
  An advance whose \<open>tanh\<close> is a number: the candidate position is \<open>mobiusAdd\<close> of the
  position and the step, it is kept when its squared norm is below \<open>0.9999\<close> and replaced
  by the point of norm \<open>0.999\<close> in its direction otherwise; the path runs from the old
  position to the new one.
\<close>

lemma buildAdvancePath_H_finite:
  assumes "space st = H" and "Math_exp d \<noteq> Infinity"
  shows "let c = mobiusAdd (h_pos st)
                  (mul2 (hyperbolicDirectionAtOrigin (h_pos st)
                           \<lparr>x2 = cos (h_theta st), y2 = sin (h_theta st)\<rparr>)
                        (tanh (d / 2)));
             p2 = (if 9999 / 10000 \<le> dot2 c c then mul2 (norm2 c) (999 / 1000) else c)
         in next (buildAdvancePath st d) = Next (st\<lparr>h_pos := p2\<rparr>)
            \<and> path (buildAdvancePath st d) = hyperbolicGeodesicPoints (h_pos st) p2 180
            \<and> hypot2 p2 < 1
            \<and> ((hypot2 p2)\<^sup>2 < 9999 / 10000 \<or> hypot2 p2 = 999 / 1000)"
proof -
  have t: "tanh_e (d / 2) = Some (tanh (d / 2))"
    using assms(2) by (intro tanh_e_finite) simp
  show ?thesis
    unfolding Let_def
    using assms(1) disk_clamp_9999
    by (simp add: buildAdvancePath_def Let_def t split del: if_split cong: if_cong)
qed

text \<open>
  An advance whose \<open>tanh\<close> is \<^verbatim>\<open>NaN\<close>: the position of the next state is
  \<^verbatim>\<open>{ x: NaN, y: NaN }\<close>, and every point of the path is \<open>(0.999, 0)\<close>.
\<close>

lemma buildAdvancePath_H_overflow:
  assumes "space st = H" and "Math_exp d = Infinity"
  shows "next (buildAdvancePath st d) = NaNPosition st
    \<and> path (buildAdvancePath st d) = replicate 181 \<lparr>x2 = 999 / 1000, y2 = 0\<rparr>"
proof -
  have t: "tanh_e (d / 2) = None"
    using assms(2) by (intro tanh_e_overflow) simp
  have "map (\<lambda>i. guardedNaN) [0..<Suc 180] = replicate 181 \<lparr>x2 = 999 / 1000, y2 = 0\<rparr>"
    by (simp only: map_replicate_const guardedNaN_value length_upt) simp
  then show ?thesis
    using assms(1) by (simp add: buildAdvancePath_def Let_def t hyperbolicGeodesicPointsNaN_def
        del: upt_Suc)
qed

lemma buildAdvancePath_H_path_in_disk:
  assumes "space st = H"
  shows "\<forall>pt\<in>set (path (buildAdvancePath st d)).
           hypot2 pt < 1 \<and> ((hypot2 pt)\<^sup>2 < 999 / 1000 \<or> hypot2 pt = 999 / 1000)"
proof (cases "tanh_e (d / 2)")
  case None
  then have e: "path (buildAdvancePath st d) = hyperbolicGeodesicPointsNaN 180"
    using assms by (simp add: buildAdvancePath_def Let_def)
  show ?thesis unfolding e by (rule hyperbolicGeodesicPointsNaN_in_disk)
next
  case (Some t)
  then have "\<exists>b. path (buildAdvancePath st d) = hyperbolicGeodesicPoints (h_pos st) b 180"
    using assms by (simp add: buildAdvancePath_def Let_def split del: if_split) blast
  then show ?thesis using hyperbolicGeodesicPoints_in_disk by metis
qed

text \<open>The hyperbolic branch of \<open>buildCircleTrace\<close>, with the locals written out.\<close>

lemma buildCircleTrace_H_path:
  assumes "space st = H" and "tanh_e (r / 2) = Some t"
  shows "path (buildCircleTrace st r) =
    map (\<lambda>i. let q = \<lparr>x2 = x2 (h_pos st)
                        + (t * (1 - dot2 (h_pos st) (h_pos st)))
                          / (1 - dot2 (h_pos st) (h_pos st) * t * t)
                          * cos ((2 * pi * real i) / real 280),
                     y2 = y2 (h_pos st)
                        + (t * (1 - dot2 (h_pos st) (h_pos st)))
                          / (1 - dot2 (h_pos st) (h_pos st) * t * t)
                          * sin ((2 * pi * real i) / real 280)\<rparr>
              in if dot2 q q < 999 / 1000 then q else mul2 (norm2 q) (999 / 1000))
        [0..<Suc 280]"
  unfolding buildCircleTrace_def Let_def assms(2) using assms(1)
  by (simp only: SpaceId.distinct if_False if_True PathResult.simps option.case refl)

lemma buildCircleTrace_H_path_overflow:
  assumes "space st = H" and "tanh_e (r / 2) = None"
  shows "path (buildCircleTrace st r) = map (\<lambda>i. guardedNaN) [0..<Suc 280]"
  unfolding buildCircleTrace_def Let_def assms(2) using assms(1)
  by (simp only: SpaceId.distinct if_False if_True PathResult.simps option.case refl)

lemma buildCircleTrace_H_next:
  "space st = H \<Longrightarrow>
     h_pos (next (buildCircleTrace st r)) = last (path (buildCircleTrace st r))
     \<and> path (buildCircleTrace st r) \<noteq> []"
  by (simp add: buildCircleTrace_def Let_def last_conv_nth split: option.split del: upt_Suc)

lemma buildCircleTrace_H_in_disk:
  assumes "space st = H"
  shows "\<forall>pt\<in>set (path (buildCircleTrace st r)).
           hypot2 pt < 1 \<and> ((hypot2 pt)\<^sup>2 < 999 / 1000 \<or> hypot2 pt = 999 / 1000)"
proof (cases "tanh_e (r / 2)")
  case None
  show ?thesis
    unfolding buildCircleTrace_H_path_overflow [OF assms None]
    by (intro ball_mapI) (simp add: hypot2_guardedNaN)
next
  case (Some t)
  show ?thesis
    unfolding buildCircleTrace_H_path [OF assms Some] Let_def
    by (intro ball_mapI disk_clamp) simp
qed

lemma buildCircleTrace_H_next_in_disk:
  assumes "space st = H"
  shows "hypot2 (h_pos (next (buildCircleTrace st r))) < 1"
  using buildCircleTrace_H_in_disk [OF assms, of r] buildCircleTrace_H_next [OF assms, of r]
    last_in_set
  by metis

text \<open>
  A circle whose \<open>tanh\<close> is \<^verbatim>\<open>NaN\<close>: all \<open>281\<close> points are \<open>(0.999, 0)\<close>, and so is the
  position of the next state.
\<close>

lemma buildCircleTrace_H_overflow:
  assumes "space st = H" and "Math_exp r = Infinity"
  shows "path (buildCircleTrace st r) = replicate 281 \<lparr>x2 = 999 / 1000, y2 = 0\<rparr>
    \<and> h_pos (next (buildCircleTrace st r)) = \<lparr>x2 = 999 / 1000, y2 = 0\<rparr>"
proof -
  have t: "tanh_e (r / 2) = None"
    using assms(2) by (intro tanh_e_overflow) simp
  have p: "path (buildCircleTrace st r) = replicate 281 \<lparr>x2 = 999 / 1000, y2 = 0\<rparr>"
    unfolding buildCircleTrace_H_path_overflow [OF assms(1) t]
    by (simp only: map_replicate_const guardedNaN_value length_upt) simp
  have "h_pos (next (buildCircleTrace st r)) = last (replicate 281 \<lparr>x2 = 999 / 1000, y2 = 0\<rparr>)"
    using buildCircleTrace_H_next [OF assms(1), of r] unfolding p by blast
  then show ?thesis using p by simp
qed

text \<open>
  For a position strictly inside the disk and a \<open>tanh\<close> that is a number, no division of
  the two builders has a zero denominator: the hyperbolic tangent lies strictly between
  \<open>-1\<close> and \<open>1\<close>, so the step of an advance lies inside the disk and the denominator of the
  circle radius is positive, and the denominator of \<open>mobiusAdd\<close> is positive for two
  points inside the disk.
\<close>

lemma circle_denominator_pos:
  assumes "dot2 p p < 1" and "\<bar>t\<bar> < 1"
  shows "0 < 1 - dot2 p p * t * t"
proof -
  have d0: "0 \<le> dot2 p p" by (simp add: dot2_def)
  have t0: "0 \<le> t * t" by simp
  have "\<bar>t\<bar> * \<bar>t\<bar> < 1 * 1"
    using assms(2) by (intro mult_strict_mono) simp_all
  then have t1: "t * t < 1" by (simp add: abs_mult_self_eq)
  have "dot2 p p * (t * t) \<le> 1 * (t * t)"
    using assms(1) t0 by (intro mult_right_mono) simp_all
  then have "dot2 p p * (t * t) < 1"
    using t1 by simp
  then show ?thesis by (simp add: mult.assoc)
qed

lemma cauchy_schwarz2: "(dot2 a b)\<^sup>2 \<le> dot2 a a * dot2 b b"
proof -
  have "dot2 a a * dot2 b b - (dot2 a b)\<^sup>2 = (x2 a * y2 b - y2 a * x2 b)\<^sup>2"
    by (simp add: dot2_def power2_eq_square algebra_simps)
  moreover have "0 \<le> (x2 a * y2 b - y2 a * x2 b)\<^sup>2" by simp
  ultimately show ?thesis by linarith
qed

lemma mobius_denominator_pos:
  assumes "dot2 a a < 1" and "dot2 b b < 1"
  shows "0 < 1 + 2 * dot2 a b + dot2 a a * dot2 b b"
proof -
  define s where "s = dot2 a b"
  have a0: "0 \<le> dot2 a a" and b0: "0 \<le> dot2 b b" by (simp_all add: dot2_def)
  have "dot2 a a * dot2 b b \<le> 1 * dot2 b b" using assms(1) b0 by (intro mult_right_mono) simp_all
  then have ab: "dot2 a a * dot2 b b < 1" using assms(2) by simp
  have cs: "s\<^sup>2 \<le> dot2 a a * dot2 b b" unfolding s_def by (rule cauchy_schwarz2)
  have sq: "0 \<le> (1 + s)\<^sup>2" by simp
  have e: "(1 + s)\<^sup>2 = 1 + 2 * s + s\<^sup>2" by (simp add: power2_eq_square algebra_simps)
  show ?thesis
  proof (cases "s = - 1")
    case True
    then have "s\<^sup>2 = 1" by simp
    with cs ab show ?thesis by simp
  next
    case False
    then have "1 + s \<noteq> 0" by simp
    then have "0 < (1 + s)\<^sup>2" by simp
    with e cs show ?thesis unfolding s_def by linarith
  qed
qed

lemma advance_step_in_disk:
  assumes "\<bar>t\<bar> < 1"
  shows "dot2 (mul2 (norm2 d) t) (mul2 (norm2 d) t) < 1"
proof -
  have "hypot2 (mul2 (norm2 d) t) = \<bar>t\<bar>"
    by (simp add: hypot2_mul2 hypot2_norm2)
  then have "hypot2 (mul2 (norm2 d) t) < 1" using assms by simp
  then show ?thesis by (simp add: hypot2_less_1_iff)
qed

subsection \<open>An advance that leaves the disk\<close>

text \<open>
  Claim C6. The claim is that every point produced by the hyperbolic builders, the
  position stored in the next state included, lies strictly inside the unit disk. The
  code does not keep this for an advance by the distance \<open>710\<close> from the initial
  hyperbolic state: \<open>Math.exp\<close> overflows at \<open>710\<close>, the engine's \<open>tanh\<close> of \<open>355\<close> is
  \<^verbatim>\<open>NaN\<close>, the test \<^verbatim>\<open>r2 >= 0.9999\<close> that should rescale the new position is false, and the
  next state holds the position \<^verbatim>\<open>{ x: NaN, y: NaN }\<close>, which is no point of the disk. The
  \<open>181\<close> points of the path pass through the other guard, which turns each of them into
  \<open>(0.999, 0)\<close>.
\<close>

theorem hyperbolic_advance_710_position_not_a_number:
  "Math_exp (2 * (710 / 2)) = Infinity
   \<and> tanh_e (710 / 2) = None
   \<and> next (buildAdvancePath (createInitialState H) 710) = NaNPosition (createInitialState H)
   \<and> path (buildAdvancePath (createInitialState H) 710)
       = replicate 181 \<lparr>x2 = 999 / 1000, y2 = 0\<rparr>"
proof -
  have m: "Math_exp 710 = Infinity" by (rule Math_exp_overflow_from_710) simp
  have s: "space (createInitialState H) = H" by (simp add: createInitialState_def Let_def)
  have t: "tanh_e (710 / 2) = None" using m by (intro tanh_e_overflow) simp
  show ?thesis using buildAdvancePath_H_overflow [OF s m] m t by simp
qed

section \<open>The hyperbolic circle trace\<close>

lemma hypCircleRho_source:
  "(tanh (r / 2) * (1 - dot2 p p)) / (1 - dot2 p p * tanh (r / 2) * tanh (r / 2))
     = hypCircleRho p r"
  unfolding hypCircleRho_def hypot2_sq
  by (simp add: power2_eq_square mult.assoc)

lemma buildCircleTrace_H_nth:
  assumes "space st = H" and "Math_exp r \<noteq> Infinity" and "i \<le> 280"
  shows "length (path (buildCircleTrace st r)) = 281
    \<and> path (buildCircleTrace st r) ! i =
        (let q = euclidCircleSample (h_pos st) (hypCircleRho (h_pos st) r) 280 i
         in if (hypot2 q)\<^sup>2 < 999 / 1000 then q else mul2 (norm2 q) (999 / 1000))"
proof -
  have t: "tanh_e (r / 2) = Some (tanh (r / 2))"
    using assms(2) by (intro tanh_e_finite) simp
  have len: "length (path (buildCircleTrace st r)) = 281"
    unfolding buildCircleTrace_H_path [OF assms(1) t] by (simp del: upt_Suc)
  have i: "i < Suc 280" using assms(3) by simp
  have nth: "map f [0..<Suc 280] ! i = f i" for f :: "nat \<Rightarrow> Vec2"
    using i by (simp del: upt_Suc)
  have "path (buildCircleTrace st r) ! i =
        (let q = euclidCircleSample (h_pos st) (hypCircleRho (h_pos st) r) 280 i
         in if (hypot2 q)\<^sup>2 < 999 / 1000 then q else mul2 (norm2 q) (999 / 1000))"
    unfolding buildCircleTrace_H_path [OF assms(1) t] nth hypCircleRho_source
    by (simp only: Let_def euclidCircleSample_def hypot2_sq)
  with len show ?thesis by simp
qed

lemma tanh_1_bounds: "1 / 2 \<le> tanh (1::real) \<and> tanh (1::real) < 1"
proof -
  have "1 + 2 \<le> exp (2::real)" by (rule exp_ge_add_one_self)
  then have e: "3 \<le> exp (2::real)" by simp
  have p: "0 < exp (2::real) + 1" using e by linarith
  have "1 / 2 \<le> (exp 2 - 1) / (exp 2 + 1 :: real)"
    using e p by (simp add: field_simps)
  moreover have "(exp 2 - 1) / (exp 2 + 1 :: real) < 1"
    using p by (simp add: field_simps)
  ultimately show ?thesis by (simp add: tanh_exp2)
qed

lemma tanh_half_bounds: "0 \<le> tanh (1 / 2 :: real) \<and> tanh (1 / 2 :: real) \<le> 1 / 2"
proof -
  have "exp (1::real) \<le> exp (10985 / 10000)" by simp
  then have e3: "exp (1::real) \<le> 3" using exp_10985_upper by linarith
  have e1: "1 \<le> exp (1::real)" by simp
  have p: "0 < exp (1::real) + 1" using e1 by linarith
  have "(exp 1 - 1) / (exp 1 + 1 :: real) \<le> 1 / 2"
    using e3 p by (simp add: field_simps)
  moreover have "0 \<le> (exp 1 - 1) / (exp 1 + 1 :: real)"
    using e1 p by simp
  ultimately show ?thesis by (simp add: tanh_exp2)
qed

text \<open>
  Claim C7, as amended. In the hyperbolic model, at a position \<open>p\<close> strictly inside the
  unit disk and for a radius \<open>r\<close> at which \<open>Math.exp\<close> does not overflow (every \<open>r\<close> up to
  \<open>709\<close>), the path of \<open>buildCircleTrace\<close> has \<open>281\<close> points; its point of index \<open>i\<close> is the
  sample of angle \<open>2 pi i / 280\<close> of the Euclidean circle around \<open>p\<close> with the radius \<open>rho\<close>
  of the specification, as long as the squared norm of that sample is below \<open>0.999\<close>; a
  sample that fails this guard is replaced by the point of norm \<open>0.999\<close> in its direction.
\<close>

theorem buildCircleTrace_H_samples_guarded_circle:
  assumes "space st = H" and "hypot2 (h_pos st) < 1" and "Math_exp r \<noteq> Infinity"
    and "i \<le> 280"
  shows "length (path (buildCircleTrace st r)) = 281
    \<and> path (buildCircleTrace st r) ! i =
        (let q = euclidCircleSample (h_pos st) (hypCircleRho (h_pos st) r) 280 i
         in if (hypot2 q)\<^sup>2 < 999 / 1000 then q else mul2 (norm2 q) (999 / 1000))"
  using assms(1) assms(3) assms(4) by (rule buildCircleTrace_H_nth)

theorem buildCircleTrace_H_samples_guarded_circle_witness:
  "space (createInitialState H) = H \<and> hypot2 (h_pos (createInitialState H)) < 1
   \<and> Math_exp 1 \<noteq> Infinity
   \<and> (0::nat) \<le> 280
   \<and> length (path (buildCircleTrace (createInitialState H) 1)) = 281
   \<and> path (buildCircleTrace (createInitialState H) 1) ! 0 = \<lparr>x2 = tanh (1 / 2), y2 = 0\<rparr>"
proof -
  have sp: "space (createInitialState H) = H"
    and hp: "h_pos (createInitialState H) = \<lparr>x2 = 0, y2 = 0\<rparr>"
    by (simp_all add: createInitialState_def Let_def)
  have z: "(0::nat) \<le> 280" by simp
  have fin: "Math_exp 1 \<noteq> Infinity" by (simp add: Math_exp_finite_up_to_709)
  have ins: "hypot2 (h_pos (createInitialState H)) < 1"
    by (simp add: hp hypot2_def hypot_def)
  have rho: "hypCircleRho \<lparr>x2 = 0, y2 = 0\<rparr> 1 = tanh (1 / 2)"
    by (simp add: hypCircleRho_def hypot2_def hypot_def)
  have q: "euclidCircleSample \<lparr>x2 = 0, y2 = 0\<rparr> (tanh (1 / 2)) 280 0 = \<lparr>x2 = tanh (1 / 2), y2 = 0\<rparr>"
    by (simp add: euclidCircleSample_def)
  have "(tanh (1 / 2 :: real))\<^sup>2 \<le> (1 / 2)\<^sup>2"
    using tanh_half_bounds by (intro power_mono) simp_all
  then have g: "(hypot2 \<lparr>x2 = tanh (1 / 2), y2 = 0\<rparr>)\<^sup>2 < 999 / 1000"
    unfolding hypot2_sq by (simp add: dot2_def power2_eq_square)
  show ?thesis
    using buildCircleTrace_H_samples_guarded_circle [OF sp ins fin z] sp ins fin g
    by (simp add: hp rho q Let_def)
qed

text \<open>
  The claim as it was stated, without the guard, fails at the position \<open>(0.9, 0)\<close> with the
  hyperbolic radius \<open>2\<close>: the first sample of the circle lies outside the unit disk and
  the path starts on the point of norm \<open>0.999\<close> instead.
\<close>

theorem buildCircleTrace_H_unguarded_counterexample:
  "path (buildCircleTrace ((createInitialState H)\<lparr>h_pos := \<lparr>x2 = 9 / 10, y2 = 0\<rparr>\<rparr>) 2) ! 0
     \<noteq> euclidCircleSample \<lparr>x2 = 9 / 10, y2 = 0\<rparr> (hypCircleRho \<lparr>x2 = 9 / 10, y2 = 0\<rparr> 2) 280 0"
proof -
  define st where "st = (createInitialState H)\<lparr>h_pos := \<lparr>x2 = 9 / 10, y2 = 0\<rparr>\<rparr>"
  define t where "t = tanh (1::real)"
  define rho where "rho = hypCircleRho \<lparr>x2 = 9 / 10, y2 = 0\<rparr> 2"
  define q where "q = euclidCircleSample \<lparr>x2 = 9 / 10, y2 = 0\<rparr> rho 280 0"
  have sp: "space st = H" and hp: "h_pos st = \<lparr>x2 = 9 / 10, y2 = 0\<rparr>"
    by (simp_all add: st_def createInitialState_def Let_def)
  have fin: "Math_exp 2 \<noteq> Infinity" by (simp add: Math_exp_finite_up_to_709)
  have t: "1 / 2 \<le> t" "t < 1" using tanh_1_bounds by (simp_all add: t_def)
  have t2: "1 / 4 \<le> t * t" using t mult_mono [of "1 / 2" t "1 / 2" t] by simp
  have t2': "t * t < 1" using t mult_strict_mono [of t 1 t 1] by simp
  have rho_eq: "rho = (t * (19 / 100)) / (1 - 81 / 100 * (t * t))"
    unfolding rho_def hypCircleRho_source [symmetric] t_def
    by (simp add: dot2_def mult.assoc)
  have den: "0 < 1 - 81 / 100 * (t * t)" using t2' by simp
  have "1 / 10 * (1 - 81 / 100 * (t * t)) \<le> t * (19 / 100)" using t t2 by simp
  then have rho: "1 / 10 \<le> rho"
    unfolding rho_eq using den by (simp add: pos_le_divide_eq)
  have qv: "q = \<lparr>x2 = 9 / 10 + rho, y2 = 0\<rparr>"
    by (simp add: q_def euclidCircleSample_def)
  have big: "1 \<le> hypot2 q" using rho by (simp add: qv hypot2_def hypot_zero_right)
  then have "1\<^sup>2 \<le> (hypot2 q)\<^sup>2" by (intro power_mono) simp_all
  then have nlt: "\<not> (hypot2 q)\<^sup>2 < 999 / 1000" by simp
  have "path (buildCircleTrace st 2) ! 0 = mul2 (norm2 q) (999 / 1000)"
    using buildCircleTrace_H_nth [OF sp fin, of 0] nlt
    by (simp add: Let_def hp q_def rho_def)
  then have "hypot2 (path (buildCircleTrace st 2) ! 0) = 999 / 1000"
    by (simp add: hypot2_rescaled)
  with big have "path (buildCircleTrace st 2) ! 0 \<noteq> q" by auto
  then show ?thesis by (simp add: st_def q_def rho_def)
qed

text \<open>
  From the radius \<open>710\<close> on \<open>Math.exp\<close> overflows and no point of the returned path lies on
  the circle of the specification: at the origin with the radius \<open>710\<close> the point of index
  \<open>140\<close>, on the negative \<open>x\<close>-axis for the circle, is \<open>(0.999, 0)\<close> in the path.
\<close>

lemma buildCircleTrace_H_overflow_710:
  "path (buildCircleTrace (createInitialState H) 710) = replicate 281 \<lparr>x2 = 999 / 1000, y2 = 0\<rparr>
   \<and> h_pos (next (buildCircleTrace (createInitialState H) 710)) = \<lparr>x2 = 999 / 1000, y2 = 0\<rparr>
   \<and> x2 (euclidCircleSample (h_pos (createInitialState H))
          (hypCircleRho (h_pos (createInitialState H)) 710) 280 140) < 0"
proof -
  have m: "Math_exp 710 = Infinity" by (rule Math_exp_overflow_from_710) simp
  have s: "space (createInitialState H) = H"
    and hp: "h_pos (createInitialState H) = \<lparr>x2 = 0, y2 = 0\<rparr>"
    by (simp_all add: createInitialState_def Let_def)
  have "0 < tanh (355::real)" by simp
  then have "x2 (euclidCircleSample \<lparr>x2 = 0, y2 = 0\<rparr> (hypCircleRho \<lparr>x2 = 0, y2 = 0\<rparr> 710) 280 140)
      < 0"
    by (simp add: euclidCircleSample_def hypCircleRho_def hypot2_def hypot_def)
  then show ?thesis using buildCircleTrace_H_overflow [OF s m] by (simp add: hp)
qed


section \<open>Turning over a fixed duration\<close>

lemma clamp_ge_1_iff: "1 \<le> clamp v 0 1 \<longleftrightarrow> 1 \<le> v"
  by (auto simp add: clamp_def max_def min_def)

lemma clamp_unit: "0 \<le> clamp v 0 1 \<and> clamp v 0 1 \<le> 1"
  by (auto simp add: clamp_def max_def min_def)

lemma stepsAnimation_Cons:
  "stepsAnimation st (dt # dts) = stepsAnimation (stepAnimation st dt) dts"
  by (simp add: stepsAnimation_def)

lemma stepsAnimation_inactive: "\<not> active (anim st) \<Longrightarrow> stepsAnimation st dts = st"
  by (induction dts) (simp_all add: stepsAnimation_def stepAnimation_def)

lemma step_turn_E:
  assumes "space st = E" and "active (anim st)"
    and "rotate (anim st) = Some \<lparr>rot_from = f, rot_to = f + g, elapsed = e, duration = dur\<rparr>"
  shows "stepAnimation st dt =
     st\<lparr>e_theta := f + g * clamp ((e + dt) / dur) 0 1,
        anim := (if 1 \<le> clamp ((e + dt) / dur) 0 1
                 then \<lparr>active = False, anim_path = [], anim_i = 0, anim_t = 0,
                       speed = speed (anim st), addToTrace = False, rotate = None\<rparr>
                 else (anim st)\<lparr>rotate := Some \<lparr>rot_from = f, rot_to = f + g, elapsed = e + dt,
                                      duration = dur\<rparr>\<rparr>)\<rparr>"
  using assms by (simp add: stepAnimation_def Let_def)

lemma turn_E_run:
  assumes "space st = E" and "active (anim st)"
    and "rotate (anim st) = Some \<lparr>rot_from = f, rot_to = f + g, elapsed = e, duration = dur\<rparr>"
    and "0 < dur" and "0 \<le> g" and "0 \<le> e" and "e < dur"
    and "f \<le> e_theta st" and "e_theta st \<le> f + g"
    and "\<forall>dt\<in>set dts. 0 \<le> dt"
  shows "f \<le> e_theta (stepsAnimation st dts) \<and> e_theta (stepsAnimation st dts) \<le> f + g
    \<and> (dur \<le> e + sum_list dts \<longrightarrow>
         e_theta (stepsAnimation st dts) = f + g \<and> \<not> active (anim (stepsAnimation st dts)))"
  using assms
proof (induction dts arbitrary: st e)
  case Nil
  then show ?case by (simp add: stepsAnimation_def)
next
  case (Cons dt dts)
  define u where "u = clamp ((e + dt) / dur) 0 1"
  define st' where "st' = stepAnimation st dt"
  have dt: "0 \<le> dt" and rest: "\<forall>d\<in>set dts. 0 \<le> d" using Cons.prems(10) by simp_all
  have u: "0 \<le> u" "u \<le> 1" using clamp_unit [of "(e + dt) / dur"] by (simp_all add: u_def)
  have st': "st' = st\<lparr>e_theta := f + g * u,
        anim := (if 1 \<le> u
                 then \<lparr>active = False, anim_path = [], anim_i = 0, anim_t = 0,
                       speed = speed (anim st), addToTrace = False, rotate = None\<rparr>
                 else (anim st)\<lparr>rotate := Some \<lparr>rot_from = f, rot_to = f + g, elapsed = e + dt,
                                      duration = dur\<rparr>\<rparr>)\<rparr>"
    unfolding st'_def u_def by (rule step_turn_E) (fact Cons.prems)+
  have gu: "0 \<le> g * u" "g * u \<le> g"
    using u Cons.prems(5) by (simp_all add: mult_left_le)
  show ?case
  proof (cases "1 \<le> u")
    case True
    then have u1: "u = 1" using u by simp
    have inact: "\<not> active (anim st')" using True by (simp add: st')
    have th: "e_theta st' = f + g" by (simp add: st' u1)
    show ?thesis
      unfolding stepsAnimation_Cons st'_def [symmetric] stepsAnimation_inactive [OF inact]
      using th inact Cons.prems(5) by simp
  next
    case False
    then have lt: "(e + dt) / dur < 1" by (simp add: u_def clamp_ge_1_iff)
    then have e': "e + dt < dur" using Cons.prems(4) by (simp add: field_simps)
    have e0: "0 \<le> e + dt" using dt Cons.prems(6) by simp
    have IH: "f \<le> e_theta (stepsAnimation st' dts) \<and> e_theta (stepsAnimation st' dts) \<le> f + g
      \<and> (dur \<le> (e + dt) + sum_list dts \<longrightarrow>
         e_theta (stepsAnimation st' dts) = f + g \<and> \<not> active (anim (stepsAnimation st' dts)))"
    proof (rule Cons.IH)
      show "space st' = E" using Cons.prems(1) by (simp add: st')
      show "active (anim st')" using False Cons.prems(2) by (simp add: st')
      show "rotate (anim st') = Some \<lparr>rot_from = f, rot_to = f + g, elapsed = e + dt, duration = dur\<rparr>"
        using False by (simp add: st')
      show "0 < dur" "0 \<le> g" by (fact Cons.prems)+
      show "0 \<le> e + dt" by (fact e0)
      show "e + dt < dur" by (fact e')
      show "f \<le> e_theta st'" using gu by (simp add: st')
      show "e_theta st' \<le> f + g" using gu by (simp add: st')
      show "\<forall>d\<in>set dts. 0 \<le> d" by (fact rest)
    qed
    then show ?thesis
      unfolding stepsAnimation_Cons st'_def [symmetric] by (simp add: add.assoc)
  qed
qed

lemma step_turn_H:
  assumes "space st = H" and "active (anim st)"
    and "rotate (anim st) = Some \<lparr>rot_from = f, rot_to = f + g, elapsed = e, duration = dur\<rparr>"
  shows "stepAnimation st dt =
     st\<lparr>h_theta := f + g * clamp ((e + dt) / dur) 0 1,
        anim := (if 1 \<le> clamp ((e + dt) / dur) 0 1
                 then \<lparr>active = False, anim_path = [], anim_i = 0, anim_t = 0,
                       speed = speed (anim st), addToTrace = False, rotate = None\<rparr>
                 else (anim st)\<lparr>rotate := Some \<lparr>rot_from = f, rot_to = f + g, elapsed = e + dt,
                                      duration = dur\<rparr>\<rparr>)\<rparr>"
  using assms by (simp add: stepAnimation_def Let_def)

lemma turn_H_run:
  assumes "space st = H" and "active (anim st)"
    and "rotate (anim st) = Some \<lparr>rot_from = f, rot_to = f + g, elapsed = e, duration = dur\<rparr>"
    and "0 < dur" and "0 \<le> g" and "0 \<le> e" and "e < dur"
    and "f \<le> h_theta st" and "h_theta st \<le> f + g"
    and "\<forall>dt\<in>set dts. 0 \<le> dt"
  shows "f \<le> h_theta (stepsAnimation st dts) \<and> h_theta (stepsAnimation st dts) \<le> f + g
    \<and> (dur \<le> e + sum_list dts \<longrightarrow>
         h_theta (stepsAnimation st dts) = f + g \<and> \<not> active (anim (stepsAnimation st dts)))"
  using assms
proof (induction dts arbitrary: st e)
  case Nil
  then show ?case by (simp add: stepsAnimation_def)
next
  case (Cons dt dts)
  define u where "u = clamp ((e + dt) / dur) 0 1"
  define st' where "st' = stepAnimation st dt"
  have dt: "0 \<le> dt" and rest: "\<forall>d\<in>set dts. 0 \<le> d" using Cons.prems(10) by simp_all
  have u: "0 \<le> u" "u \<le> 1" using clamp_unit [of "(e + dt) / dur"] by (simp_all add: u_def)
  have st': "st' = st\<lparr>h_theta := f + g * u,
        anim := (if 1 \<le> u
                 then \<lparr>active = False, anim_path = [], anim_i = 0, anim_t = 0,
                       speed = speed (anim st), addToTrace = False, rotate = None\<rparr>
                 else (anim st)\<lparr>rotate := Some \<lparr>rot_from = f, rot_to = f + g, elapsed = e + dt,
                                      duration = dur\<rparr>\<rparr>)\<rparr>"
    unfolding st'_def u_def by (rule step_turn_H) (fact Cons.prems)+
  have gu: "0 \<le> g * u" "g * u \<le> g"
    using u Cons.prems(5) by (simp_all add: mult_left_le)
  show ?case
  proof (cases "1 \<le> u")
    case True
    then have u1: "u = 1" using u by simp
    have inact: "\<not> active (anim st')" using True by (simp add: st')
    have th: "h_theta st' = f + g" by (simp add: st' u1)
    show ?thesis
      unfolding stepsAnimation_Cons st'_def [symmetric] stepsAnimation_inactive [OF inact]
      using th inact Cons.prems(5) by simp
  next
    case False
    then have lt: "(e + dt) / dur < 1" by (simp add: u_def clamp_ge_1_iff)
    then have e': "e + dt < dur" using Cons.prems(4) by (simp add: field_simps)
    have e0: "0 \<le> e + dt" using dt Cons.prems(6) by simp
    have IH: "f \<le> h_theta (stepsAnimation st' dts) \<and> h_theta (stepsAnimation st' dts) \<le> f + g
      \<and> (dur \<le> (e + dt) + sum_list dts \<longrightarrow>
         h_theta (stepsAnimation st' dts) = f + g \<and> \<not> active (anim (stepsAnimation st' dts)))"
    proof (rule Cons.IH)
      show "space st' = H" using Cons.prems(1) by (simp add: st')
      show "active (anim st')" using False Cons.prems(2) by (simp add: st')
      show "rotate (anim st') = Some \<lparr>rot_from = f, rot_to = f + g, elapsed = e + dt, duration = dur\<rparr>"
        using False by (simp add: st')
      show "0 < dur" "0 \<le> g" by (fact Cons.prems)+
      show "0 \<le> e + dt" by (fact e0)
      show "e + dt < dur" by (fact e')
      show "f \<le> h_theta st'" using gu by (simp add: st')
      show "h_theta st' \<le> f + g" using gu by (simp add: st')
      show "\<forall>d\<in>set dts. 0 \<le> d" by (fact rest)
    qed
    then show ?thesis
      unfolding stepsAnimation_Cons st'_def [symmetric] by (simp add: add.assoc)
  qed
qed


text \<open>
  In the Euclidean and in the hyperbolic model a quarter turn scheduled over \<open>0.35\<close> seconds
  never leaves the interval between the initial heading and the initial heading plus
  \<open>pi/2\<close>, whatever the (non-negative) frame times, and it ends exactly on the target once
  the frame times add up to the duration.
\<close>

lemma turn_converges_E:
  assumes "space st = E" and "\<forall>dt\<in>set dts. 0 \<le> dt"
  shows "e_theta st \<le> e_theta (stepsAnimation (buildTurnAnim st 90 (35 / 100)) dts)
    \<and> e_theta (stepsAnimation (buildTurnAnim st 90 (35 / 100)) dts) \<le> e_theta st + pi / 2
    \<and> (35 / 100 \<le> sum_list dts \<longrightarrow>
         e_theta (stepsAnimation (buildTurnAnim st 90 (35 / 100)) dts) = e_theta st + pi / 2
         \<and> \<not> active (anim (stepsAnimation (buildTurnAnim st 90 (35 / 100)) dts)))"
  using turn_E_run [of "buildTurnAnim st 90 (35 / 100)" "e_theta st" "pi / 2" 0 "35 / 100" dts]
    assms
  by (simp add: buildTurnAnim_def Let_def)

lemma turn_converges_H:
  assumes "space st = H" and "\<forall>dt\<in>set dts. 0 \<le> dt"
  shows "h_theta st \<le> h_theta (stepsAnimation (buildTurnAnim st 90 (35 / 100)) dts)
    \<and> h_theta (stepsAnimation (buildTurnAnim st 90 (35 / 100)) dts) \<le> h_theta st + pi / 2
    \<and> (35 / 100 \<le> sum_list dts \<longrightarrow>
         h_theta (stepsAnimation (buildTurnAnim st 90 (35 / 100)) dts) = h_theta st + pi / 2
         \<and> \<not> active (anim (stepsAnimation (buildTurnAnim st 90 (35 / 100)) dts)))"
  using turn_H_run [of "buildTurnAnim st 90 (35 / 100)" "h_theta st" "pi / 2" 0 "35 / 100" dts]
    assms
  by (simp add: buildTurnAnim_def Let_def)

lemma hypot3d_cos_sin: "hypot3d (cos a) (sin a) 0 = 1"
proof -
  have "cos a * cos a + sin a * sin a = 1"
    using sin_cos_squared_add2 [of a] by (simp add: power2_eq_square)
  then show ?thesis by (simp add: hypot3d_def)
qed

lemma sphereTurn_north:
  "sphereTurn \<lparr>x3 = 0, y3 = 0, z3 = 1\<rparr> \<lparr>x3 = cos a, y3 = sin a, z3 = 0\<rparr> d
     = \<lparr>x3 = cos (a + d), y3 = sin (a + d), z3 = 0\<rparr>"
proof -
  have "add3 (add3 (mul3 \<lparr>x3 = cos a, y3 = sin a, z3 = 0\<rparr> (cos d))
          (mul3 (cross3 \<lparr>x3 = 0, y3 = 0, z3 = 1\<rparr> \<lparr>x3 = cos a, y3 = sin a, z3 = 0\<rparr>) (sin d)))
          (mul3 \<lparr>x3 = 0, y3 = 0, z3 = 1\<rparr>
            (dot3 \<lparr>x3 = 0, y3 = 0, z3 = 1\<rparr> \<lparr>x3 = cos a, y3 = sin a, z3 = 0\<rparr> * (1 - cos d)))
        = \<lparr>x3 = cos (a + d), y3 = sin (a + d), z3 = 0\<rparr>"
    by (simp add: add3_def mul3_def cross3_def dot3_def cos_add sin_add)
  then show ?thesis
    by (simp add: sphereTurn_def Let_def norm3_def hypot3_def hypot3d_cos_sin mul3_def)
qed

lemma step_sphere_turn:
  assumes "space st = S" and "s_p st = \<lparr>x3 = 0, y3 = 0, z3 = 1\<rparr>"
    and "s_t st = \<lparr>x3 = cos a, y3 = sin a, z3 = 0\<rparr>"
    and "active (anim st)"
    and "rotate (anim st) = Some \<lparr>rot_from = 0, rot_to = tot, elapsed = e, duration = dur\<rparr>"
  shows "stepAnimation st dt =
     st\<lparr>s_t := \<lparr>x3 = cos (a + tot * dt / dur), y3 = sin (a + tot * dt / dur), z3 = 0\<rparr>,
        anim := (if 1 \<le> clamp ((e + dt) / dur) 0 1
                 then \<lparr>active = False, anim_path = [], anim_i = 0, anim_t = 0,
                       speed = speed (anim st), addToTrace = False, rotate = None\<rparr>
                 else (anim st)\<lparr>rotate := Some \<lparr>rot_from = 0, rot_to = tot, elapsed = e + dt,
                                      duration = dur\<rparr>\<rparr>)\<rparr>"
  using assms by (simp add: stepAnimation_def Let_def sphereTurn_north)


lemma stepsAnimation_snoc:
  "stepsAnimation st (dts @ [dt]) = stepAnimation (stepsAnimation st dts) dt"
  by (simp add: stepsAnimation_def)

lemma sphere_turn_run:
  assumes "k \<le> 10"
  shows "stepsAnimation (buildTurnAnim (createInitialState S) 90 (35 / 100)) (replicate k (33 / 1000))
    = (createInitialState S)
        \<lparr>s_t := \<lparr>x3 = cos (real k * (33 * pi / 700)), y3 = sin (real k * (33 * pi / 700)), z3 = 0\<rparr>,
         anim := \<lparr>active = True, anim_path = [], anim_i = 0, anim_t = 0, speed = 6 / 10,
                  addToTrace = False,
                  rotate = Some \<lparr>rot_from = 0, rot_to = pi / 2, elapsed = real k * (33 / 1000),
                                 duration = 35 / 100\<rparr>\<rparr>\<rparr>"
  using assms
proof (induction k)
  case 0
  show ?case
    by (simp add: stepsAnimation_def buildTurnAnim_def createInitialState_def Let_def
        norm3_def hypot3_def hypot3d_def mul3_def)
next
  case (Suc k)
  then have k: "k \<le> 10" by simp
  have r: "replicate (Suc k) (33 / 1000 :: real) = replicate k (33 / 1000) @ [33 / 1000]"
    by (simp add: replicate_append_same)
  have lt: "\<not> 1 \<le> (real k * (33 / 1000) + 33 / 1000) / (35 / 100)"
  proof -
    have "real k \<le> 9" using Suc.prems by simp
    then show ?thesis by (simp add: field_simps)
  qed
  have ang: "real k * (33 * pi / 700) + pi / 2 * (33 / 1000) / (35 / 100)
      = real (Suc k) * (33 * pi / 700)"
    by (simp add: field_simps)
  have el: "real k * (33 / 1000) + 33 / 1000 = real (Suc k) * (33 / 1000)"
    by (simp add: field_simps)
  define st where "st = (createInitialState S)
        \<lparr>s_t := \<lparr>x3 = cos (real k * (33 * pi / 700)), y3 = sin (real k * (33 * pi / 700)), z3 = 0\<rparr>,
         anim := \<lparr>active = True, anim_path = [], anim_i = 0, anim_t = 0, speed = 6 / 10,
                  addToTrace = False,
                  rotate = Some \<lparr>rot_from = 0, rot_to = pi / 2, elapsed = real k * (33 / 1000),
                                 duration = 35 / 100\<rparr>\<rparr>\<rparr>"
  have "stepAnimation st (33 / 1000) =
     st\<lparr>s_t := \<lparr>x3 = cos (real k * (33 * pi / 700) + pi / 2 * (33 / 1000) / (35 / 100)),
                y3 = sin (real k * (33 * pi / 700) + pi / 2 * (33 / 1000) / (35 / 100)), z3 = 0\<rparr>,
        anim := (if 1 \<le> clamp ((real k * (33 / 1000) + 33 / 1000) / (35 / 100)) 0 1
                 then \<lparr>active = False, anim_path = [], anim_i = 0, anim_t = 0,
                       speed = speed (anim st), addToTrace = False, rotate = None\<rparr>
                 else (anim st)\<lparr>rotate := Some \<lparr>rot_from = 0, rot_to = pi / 2,
                        elapsed = real k * (33 / 1000) + 33 / 1000, duration = 35 / 100\<rparr>\<rparr>)\<rparr>"
    by (rule step_sphere_turn)
      (simp_all add: st_def createInitialState_def Let_def norm3_def hypot3_def hypot3d_def mul3_def)
  then have "stepAnimation st (33 / 1000) =
     st\<lparr>s_t := \<lparr>x3 = cos (real (Suc k) * (33 * pi / 700)),
                y3 = sin (real (Suc k) * (33 * pi / 700)), z3 = 0\<rparr>,
        anim := (anim st)\<lparr>rotate := Some \<lparr>rot_from = 0, rot_to = pi / 2,
                        elapsed = real (Suc k) * (33 / 1000), duration = 35 / 100\<rparr>\<rparr>\<rparr>"
    unfolding ang el clamp_ge_1_iff using lt by (simp only: if_False el)
  then show ?case
    unfolding r stepsAnimation_snoc Suc.IH [OF k] st_def [symmetric]
    by (simp add: st_def)
qed

lemma sphere_turn_eleven_frames:
  "stepsAnimation (buildTurnAnim (createInitialState S) 90 (35 / 100)) (replicate 11 (33 / 1000))
    = (createInitialState S)
        \<lparr>s_t := \<lparr>x3 = cos (363 * pi / 700), y3 = sin (363 * pi / 700), z3 = 0\<rparr>\<rparr>"
proof -
  have r: "replicate 11 (33 / 1000 :: real) = replicate 10 (33 / 1000) @ [33 / 1000]"
    by (simp add: numeral_eq_Suc replicate_append_same)
  define st where "st = (createInitialState S)
        \<lparr>s_t := \<lparr>x3 = cos (real 10 * (33 * pi / 700)), y3 = sin (real 10 * (33 * pi / 700)), z3 = 0\<rparr>,
         anim := \<lparr>active = True, anim_path = [], anim_i = 0, anim_t = 0, speed = 6 / 10,
                  addToTrace = False,
                  rotate = Some \<lparr>rot_from = 0, rot_to = pi / 2, elapsed = real 10 * (33 / 1000),
                                 duration = 35 / 100\<rparr>\<rparr>\<rparr>"
  have "stepAnimation st (33 / 1000) =
     st\<lparr>s_t := \<lparr>x3 = cos (real 10 * (33 * pi / 700) + pi / 2 * (33 / 1000) / (35 / 100)),
                y3 = sin (real 10 * (33 * pi / 700) + pi / 2 * (33 / 1000) / (35 / 100)), z3 = 0\<rparr>,
        anim := (if 1 \<le> clamp ((real 10 * (33 / 1000) + 33 / 1000) / (35 / 100)) 0 1
                 then \<lparr>active = False, anim_path = [], anim_i = 0, anim_t = 0,
                       speed = speed (anim st), addToTrace = False, rotate = None\<rparr>
                 else (anim st)\<lparr>rotate := Some \<lparr>rot_from = 0, rot_to = pi / 2,
                        elapsed = real 10 * (33 / 1000) + 33 / 1000, duration = 35 / 100\<rparr>\<rparr>)\<rparr>"
    by (rule step_sphere_turn)
      (simp_all add: st_def createInitialState_def Let_def norm3_def hypot3_def hypot3d_def mul3_def)
  moreover have "real 10 * (33 * pi / 700) + pi / 2 * (33 / 1000) / (35 / 100) = 363 * pi / 700"
    by (simp add: field_simps)
  moreover have "1 \<le> clamp ((real 10 * (33 / 1000) + 33 / 1000) / (35 / 100)) 0 1"
    unfolding clamp_ge_1_iff by simp
  ultimately have "stepAnimation st (33 / 1000) =
     st\<lparr>s_t := \<lparr>x3 = cos (363 * pi / 700), y3 = sin (363 * pi / 700), z3 = 0\<rparr>,
        anim := \<lparr>active = False, anim_path = [], anim_i = 0, anim_t = 0,
                 speed = speed (anim st), addToTrace = False, rotate = None\<rparr>\<rparr>"
    by (simp only: if_True)
  moreover have "stepsAnimation (buildTurnAnim (createInitialState S) 90 (35 / 100))
      (replicate 10 (33 / 1000)) = st"
    unfolding st_def by (rule sphere_turn_run) simp
  ultimately show ?thesis
    unfolding r stepsAnimation_snoc
    by (simp add: st_def createInitialState_def Let_def)
qed


lemma atan2_cos_sin_second_quadrant:
  assumes "pi / 2 < a" and "a \<le> pi"
  shows "atan2 (sin a) (cos a) = a"
proof -
  have c: "cos a < 0"
    using assms cos_monotone_0_pi [of "pi / 2" a] by simp
  have s: "0 \<le> sin a" using assms by (intro sin_ge_zero) simp_all
  have "tan a = tan (a - pi)" by (simp add: tan_def)
  moreover have "arctan (tan (a - pi)) = a - pi"
    using assms by (intro arctan_tan) simp_all
  ultimately have "arctan (sin a / cos a) = a - pi" by (simp add: tan_def)
  then show ?thesis using c s by (simp add: atan2_def)
qed

text \<open>
  Claim C2. A quarter turn scheduled by \<open>buildTurnAnim\<close> over \<open>0.35\<close> seconds and stepped
  until the frame times add up to at least \<open>0.35\<close> seconds should end on the initial
  heading plus \<open>pi/2\<close>, within \<open>1e-6\<close>, without passing that target, in every model. The
  Euclidean and the hyperbolic branch do so (\<open>turn_converges_E\<close>, \<open>turn_converges_H\<close>): they
  interpolate with the clamped fraction of the elapsed time. The spherical branch rotates
  the tangent by \<open>to * dt / duration\<close> in every frame, the last one included, so the total
  rotation is \<open>pi/2\<close> times the elapsed time over the duration. From the initial state of
  the sphere, with eleven frames of \<open>0.033\<close> seconds (the cap of the main loop, \<open>0.363\<close>
  seconds in all), the job is still active after ten frames, ends with the eleventh, and
  the heading, \<open>0\<close> at the start, ends at the angle \<open>363 pi / 700\<close>, which is
  \<open>13 pi / 700\<close> beyond \<open>pi/2\<close>.
\<close>

theorem sphere_turn_overshoots:
  "frogHeadingWorldDir (createInitialState S) = \<lparr>x2 = 1, y2 = 0\<rparr>
   \<and> active (anim (stepsAnimation (buildTurnAnim (createInitialState S) 90 (35 / 100))
        (replicate 10 (33 / 1000))))
   \<and> \<not> active (anim (stepsAnimation (buildTurnAnim (createInitialState S) 90 (35 / 100))
        (replicate 11 (33 / 1000))))
   \<and> frogHeadingWorldDir (stepsAnimation (buildTurnAnim (createInitialState S) 90 (35 / 100))
        (replicate 11 (33 / 1000)))
       = \<lparr>x2 = cos (363 * pi / 700), y2 = sin (363 * pi / 700)\<rparr>
   \<and> atan2 (sin (363 * pi / 700)) (cos (363 * pi / 700)) = pi / 2 + 13 * pi / 700
   \<and> 1 / 1000000 < 13 * pi / 700"
proof (intro conjI)
  show "frogHeadingWorldDir (createInitialState S) = \<lparr>x2 = 1, y2 = 0\<rparr>"
    by (simp add: frogHeadingWorldDir_def createInitialState_def Let_def norm3_def hypot3_def
        hypot3d_def mul3_def sphereToWorld2_def norm2_def hypot2_def hypot_def mul2_def)
  show "active (anim (stepsAnimation (buildTurnAnim (createInitialState S) 90 (35 / 100))
        (replicate 10 (33 / 1000))))"
    using sphere_turn_run [of 10] by simp
  show "\<not> active (anim (stepsAnimation (buildTurnAnim (createInitialState S) 90 (35 / 100))
        (replicate 11 (33 / 1000))))"
    unfolding sphere_turn_eleven_frames by (simp add: createInitialState_def Let_def)
  have "hypot (cos (363 * pi / 700)) (sin (363 * pi / 700)) = 1"
    using hypot3d_cos_sin [of "363 * pi / 700"] by (simp add: hypot_def hypot3d_def)
  then show "frogHeadingWorldDir (stepsAnimation (buildTurnAnim (createInitialState S) 90 (35 / 100))
        (replicate 11 (33 / 1000)))
       = \<lparr>x2 = cos (363 * pi / 700), y2 = sin (363 * pi / 700)\<rparr>"
    unfolding sphere_turn_eleven_frames
    by (simp add: frogHeadingWorldDir_def createInitialState_def Let_def sphereToWorld2_def
        norm2_def hypot2_def mul2_def)
  have "atan2 (sin (363 * pi / 700)) (cos (363 * pi / 700)) = 363 * pi / 700"
    by (rule atan2_cos_sin_second_quadrant) (simp_all add: field_simps)
  then show "atan2 (sin (363 * pi / 700)) (cos (363 * pi / 700)) = pi / 2 + 13 * pi / 700"
    by (simp add: field_simps)
  show "1 / 1000000 < 13 * pi / 700"
    using pi_ge_two by (simp add: field_simps)
qed




section \<open>The two angle measures in the hyperbolic model\<close>

lemma subWhileGtPi_stop: "d \<le> pi \<Longrightarrow> subWhileGtPi d = d"
  by (subst subWhileGtPi.simps) simp

lemma subWhileGtPi_once: "pi < d \<Longrightarrow> d \<le> 3 * pi \<Longrightarrow> subWhileGtPi d = d - 2 * pi"
  by (subst subWhileGtPi.simps) (simp add: subWhileGtPi_stop)

lemma addWhileLtNegPi_stop: "- pi \<le> d \<Longrightarrow> addWhileLtNegPi d = d"
  by (subst addWhileLtNegPi.simps) simp

lemma angleHand_formula:
  assumes "A \<noteq> B" and "C \<noteq> B"
  shows "angleHand H A B C = euclidDirectionAngle A B C"
proof -
  have nz: "hypot2 (sub2 P B) \<noteq> 0" if "P \<noteq> B" for P
  proof
    assume "hypot2 (sub2 P B) = 0"
    then have "x2 P = x2 B \<and> y2 P = y2 B"
      by (simp add: hypot2_def sub2_def hypot_eq_0_iff)
    then have "P = B" by simp
    with that show False by simp
  qed
  have a: "or1 (hypot (x2 A - x2 B) (y2 A - y2 B)) = hypot2 (sub2 A B)"
    using nz [OF assms(1)] by (simp add: or1_def hypot2_def sub2_def)
  have c: "or1 (hypot (x2 C - x2 B) (y2 C - y2 B)) = hypot2 (sub2 C B)"
    using nz [OF assms(2)] by (simp add: or1_def hypot2_def sub2_def)
  show ?thesis
    by (simp add: angleHand_def euclidDirectionAngle_def Let_def a c)
      (simp add: dot2_def mul2_def sub2_def add_divide_distrib)
qed


lemma nth_map_upt_Suc: "i \<le> n \<Longrightarrow> map f [0..<Suc n] ! i = f i"
  using nth_map_upt [of i "Suc n" 0 f] by simp

lemma geo_BC_0:
  "hyperbolicGeodesicPoints \<lparr>x2 = 1 / 2, y2 = 0\<rparr> \<lparr>x2 = 0, y2 = 0\<rparr> 30 ! 0 = \<lparr>x2 = 1 / 2, y2 = 0\<rparr>"
  unfolding hyperbolicGeodesicPoints_def Let_def
  by (simp add: nth_map_upt_Suc add2_def mul2_def dot2_def del: upt_Suc)

lemma geo_BC_1:
  "hyperbolicGeodesicPoints \<lparr>x2 = 1 / 2, y2 = 0\<rparr> \<lparr>x2 = 0, y2 = 0\<rparr> 30 ! 1 = \<lparr>x2 = 29 / 60, y2 = 0\<rparr>"
  unfolding hyperbolicGeodesicPoints_def Let_def
  by (simp add: nth_map_upt_Suc add2_def mul2_def dot2_def del: upt_Suc)

lemma dir_BC:
  "norm2 (sub2 \<lparr>x2 = 29 / 60, y2 = 0\<rparr> \<lparr>x2 = 1 / 2, y2 = 0\<rparr>) = \<lparr>x2 = - 1, y2 = 0\<rparr>"
  by (simp add: norm2_def sub2_def hypot2_def hypot_zero_right mul2_def Let_def)

text \<open>The angle \<open>arctan (1/3)\<close> and the circle through \<open>(1/2, 0)\<close> and \<open>(1/2, 1/2)\<close>
  orthogonal to the unit circle: centre \<open>(5/4, 1/4)\<close>, radius \<open>sqrt 10 / 4\<close>.\<close>

lemma sqrt_10_9: "sqrt (10 / 9 :: real) = sqrt 10 / 3"
  by (simp add: real_sqrt_divide)

lemma arctan_third:
  "0 < arctan (1 / 3 :: real)" "arctan (1 / 3 :: real) < pi / 2"
  "cos (arctan (1 / 3 :: real)) = 3 / sqrt 10" "sin (arctan (1 / 3 :: real)) = 1 / sqrt 10"
proof -
  show "0 < arctan (1 / 3 :: real)" by simp
  show "arctan (1 / 3 :: real) < pi / 2" by (rule arctan_ubound)
  have s: "sqrt (1 + (1 / 3 :: real)\<^sup>2) = sqrt 10 / 3"
    using sqrt_10_9 by (simp add: power2_eq_square)
  show "cos (arctan (1 / 3 :: real)) = 3 / sqrt 10"
    by (simp add: cos_arctan s)
  show "sin (arctan (1 / 3 :: real)) = 1 / sqrt 10"
    by (simp add: sin_arctan s)
qed

lemma radius_BA: "hypot (1 / 2 - 5 / 4) (0 - 1 / 4) = sqrt 10 / 4"
proof -
  have "sqrt (5 / 8 :: real) = sqrt 10 / 4"
    by (rule real_sqrt_unique) (simp_all add: power_divide)
  then show ?thesis by (simp add: hypot_def)
qed

lemma beta_bounds:
  "3 < sqrt 10 * cos (14 / 15 * arctan (1 / 3 :: real))"
  "0 \<le> sqrt 10 * sin (14 / 15 * arctan (1 / 3 :: real))"
proof -
  define al where "al = arctan (1 / 3 :: real)"
  have al: "0 < al" "al < pi / 2" "cos al = 3 / sqrt 10" "sin al = 1 / sqrt 10"
    unfolding al_def by (rule arctan_third)+
  have b: "0 < 14 / 15 * al" "14 / 15 * al < al" using al by simp_all
  have cb: "3 / sqrt 10 < cos (14 / 15 * al)"
    using cos_monotone_0_pi [of "14 / 15 * al" al] b al by simp
  have sb: "0 \<le> sin (14 / 15 * al)"
    using b al by (intro sin_ge_zero) simp_all
  have "sqrt 10 * (3 / sqrt 10) < sqrt 10 * cos (14 / 15 * al)"
    using cb by (intro mult_strict_left_mono) simp_all
  then show "3 < sqrt 10 * cos (14 / 15 * arctan (1 / 3 :: real))"
    by (simp add: al_def)
  show "0 \<le> sqrt 10 * sin (14 / 15 * arctan (1 / 3 :: real))"
    using sb by (simp add: al_def)
qed

lemma geo_BA:
  defines "al \<equiv> arctan (1 / 3 :: real)"
  shows "hyperbolicGeodesicPoints \<lparr>x2 = 1 / 2, y2 = 0\<rparr> \<lparr>x2 = 1 / 2, y2 = 1 / 2\<rparr> 30 ! 0
      = \<lparr>x2 = 1 / 2, y2 = 0\<rparr>"
    and "hyperbolicGeodesicPoints \<lparr>x2 = 1 / 2, y2 = 0\<rparr> \<lparr>x2 = 1 / 2, y2 = 1 / 2\<rparr> 30 ! 1
      = \<lparr>x2 = 5 / 4 - sqrt 10 / 4 * cos (14 / 15 * al),
          y2 = 1 / 4 - sqrt 10 / 4 * sin (14 / 15 * al)\<rparr>"
proof -
  have al: "0 < al" "al < pi / 2" "cos al = 3 / sqrt 10" "sin al = 1 / sqrt 10"
    unfolding al_def by (rule arctan_third)+
  have angA: "atan2 (0 - 1 / 4) (1 / 2 - 5 / 4) = al - pi"
    by (simp add: atan2_def al_def)
  have angB: "atan2 (1 / 2 - 1 / 4) (1 / 2 - 5 / 4) = pi - al"
    by (simp add: atan2_def al_def arctan_minus)
  have d: "addWhileLtNegPi (subWhileGtPi ((pi - al) - (al - pi))) = - 2 * al"
  proof -
    have "subWhileGtPi ((pi - al) - (al - pi)) = (pi - al) - (al - pi) - 2 * pi"
      using al by (intro subWhileGtPi_once) simp_all
    then have "subWhileGtPi ((pi - al) - (al - pi)) = - 2 * al" by simp
    moreover have "addWhileLtNegPi (- 2 * al) = - 2 * al"
      using al by (intro addWhileLtNegPi_stop) simp
    ultimately show ?thesis by simp
  qed
  have c0: "cos (al - pi) = - (3 / sqrt 10)" "sin (al - pi) = - (1 / sqrt 10)"
    using al by (simp_all add: cos_diff sin_diff)
  have a1: "al - pi + - 2 * al * (1 / 30) = 14 / 15 * al - pi" by simp
  have c1: "cos (14 / 15 * al - pi) = - cos (14 / 15 * al)"
    "sin (14 / 15 * al - pi) = - sin (14 / 15 * al)"
    by (simp_all add: cos_diff sin_diff)
  have s10: "sqrt 10 * sqrt 10 = (10::real)" by simp
  have in0: "dot2 \<lparr>x2 = 5 / 4 + sqrt 10 / 4 * - (3 / sqrt 10), y2 = 1 / 4 + sqrt 10 / 4 * - (1 / sqrt 10)\<rparr>
      \<lparr>x2 = 5 / 4 + sqrt 10 / 4 * - (3 / sqrt 10), y2 = 1 / 4 + sqrt 10 / 4 * - (1 / sqrt 10)\<rparr>
      < 999 / 1000"
    by (simp add: dot2_def)
  define cb' where "cb' = cos (14 / 15 * al)"
  define sb' where "sb' = sin (14 / 15 * al)"
  have cs: "cb' * cb' + sb' * sb' = 1"
    unfolding cb'_def sb'_def using sin_cos_squared_add2 [of "14 / 15 * al"]
    by (simp add: power2_eq_square)
  have rc: "3 < sqrt 10 * cb'" and rs: "0 \<le> sqrt 10 * sb'"
    unfolding cb'_def sb'_def al_def by (rule beta_bounds)+
  have "dot2 \<lparr>x2 = 5 / 4 - sqrt 10 / 4 * cb', y2 = 1 / 4 - sqrt 10 / 4 * sb'\<rparr>
      \<lparr>x2 = 5 / 4 - sqrt 10 / 4 * cb', y2 = 1 / 4 - sqrt 10 / 4 * sb'\<rparr>
      = 26 / 16 + (sqrt 10 * sqrt 10) / 16 * (cb' * cb' + sb' * sb')
        - 5 / 8 * (sqrt 10 * cb') - 1 / 8 * (sqrt 10 * sb')"
    by (simp add: dot2_def algebra_simps)
  also have "\<dots> = 9 / 4 - 5 / 8 * (sqrt 10 * cb') - 1 / 8 * (sqrt 10 * sb')"
    by (simp only: cs s10)
  also have "\<dots> < 999 / 1000" using rc rs by linarith
  finally have in1: "dot2 \<lparr>x2 = 5 / 4 - sqrt 10 / 4 * cb', y2 = 1 / 4 - sqrt 10 / 4 * sb'\<rparr>
      \<lparr>x2 = 5 / 4 - sqrt 10 / 4 * cb', y2 = 1 / 4 - sqrt 10 / 4 * sb'\<rparr> < 999 / 1000" .
  have cross: "\<not> \<bar>1 / 2 * (1 / 2) - 0 * (1 / 2 :: real)\<bar> < 1 / 1000000"
    by simp
  have centre: "((dot2 \<lparr>x2 = 1 / 2, y2 = 0\<rparr> \<lparr>x2 = 1 / 2, y2 = 0\<rparr> + 1) / 2 * (1 / 2)
        - 0 * ((dot2 \<lparr>x2 = 1 / 2, y2 = 1 / 2\<rparr> \<lparr>x2 = 1 / 2, y2 = 1 / 2\<rparr> + 1) / 2))
        / (1 / 2 * (1 / 2) - 0 * (1 / 2)) = (5 / 4 :: real)"
    "(1 / 2 * ((dot2 \<lparr>x2 = 1 / 2, y2 = 1 / 2\<rparr> \<lparr>x2 = 1 / 2, y2 = 1 / 2\<rparr> + 1) / 2)
        - (dot2 \<lparr>x2 = 1 / 2, y2 = 0\<rparr> \<lparr>x2 = 1 / 2, y2 = 0\<rparr> + 1) / 2 * (1 / 2))
        / (1 / 2 * (1 / 2) - 0 * (1 / 2)) = (1 / 4 :: real)"
    by (simp_all add: dot2_def)
  show "hyperbolicGeodesicPoints \<lparr>x2 = 1 / 2, y2 = 0\<rparr> \<lparr>x2 = 1 / 2, y2 = 1 / 2\<rparr> 30 ! 0
      = \<lparr>x2 = 1 / 2, y2 = 0\<rparr>"
    unfolding hyperbolicGeodesicPoints_def Let_def
    apply (simp only: cross if_False Vec2.simps centre radius_BA angA angB d)
    apply (simp only: nth_map_upt_Suc [of 0 30] le0)
    apply (simp add: c0 al(3) al(4) dot2_def)
    done
  show "hyperbolicGeodesicPoints \<lparr>x2 = 1 / 2, y2 = 0\<rparr> \<lparr>x2 = 1 / 2, y2 = 1 / 2\<rparr> 30 ! 1
      = \<lparr>x2 = 5 / 4 - sqrt 10 / 4 * cos (14 / 15 * al),
          y2 = 1 / 4 - sqrt 10 / 4 * sin (14 / 15 * al)\<rparr>"
    unfolding hyperbolicGeodesicPoints_def Let_def
    apply (simp only: cross if_False Vec2.simps centre radius_BA angA angB d)
    apply (subst nth_map_upt_Suc [of 1 30])
     apply simp
    apply (simp add: a1 c1 in1 [unfolded cb'_def sb'_def, simplified])
    done
qed


text \<open>
  Claim C4, as amended. For \<open>A\<close> and \<open>C\<close> distinct from the vertex \<open>B\<close>, \<open>angleHand\<close> in the
  space \<open>H\<close> is the Euclidean-direction formula on the raw coordinates, with no
  correction. \<open>angleAt\<close> in the space \<open>H\<close> is a different measure: the angle between the
  first chords of the two geodesics that \<open>hyperbolicGeodesicPoints\<close> samples with \<open>30\<close>
  steps from \<open>B\<close> to \<open>A\<close> and from \<open>B\<close> to \<open>C\<close>.
\<close>

theorem angleHand_H_is_euclid_direction_formula:
  assumes "A \<noteq> B" and "C \<noteq> B"
  shows "angleHand H A B C = euclidDirectionAngle A B C
    \<and> angleAt H A B C =
        arccos (clamp (dot2
          (norm2 (sub2 (hyperbolicGeodesicPoints B A 30 ! 1) (hyperbolicGeodesicPoints B A 30 ! 0)))
          (norm2 (sub2 (hyperbolicGeodesicPoints B C 30 ! 1) (hyperbolicGeodesicPoints B C 30 ! 0))))
          (- 1) 1)"
  using angleHand_formula [OF assms] by (simp add: angleAt_def Let_def)

lemma euclidDirectionAngle_example:
  "euclidDirectionAngle \<lparr>x2 = 1 / 2, y2 = 1 / 2\<rparr> \<lparr>x2 = 1 / 2, y2 = 0\<rparr> \<lparr>x2 = 0, y2 = 0\<rparr> = pi / 2"
  by (simp add: euclidDirectionAngle_def Let_def sub2_def mul2_def dot2_def clamp_def)

theorem angleHand_H_is_euclid_direction_formula_witness:
  "\<lparr>x2 = 1 / 2, y2 = 1 / 2\<rparr> \<noteq> \<lparr>x2 = 1 / 2, y2 = 0 :: real\<rparr>
   \<and> \<lparr>x2 = 0, y2 = 0\<rparr> \<noteq> \<lparr>x2 = 1 / 2, y2 = 0 :: real\<rparr>
   \<and> angleHand H \<lparr>x2 = 1 / 2, y2 = 1 / 2\<rparr> \<lparr>x2 = 1 / 2, y2 = 0\<rparr> \<lparr>x2 = 0, y2 = 0\<rparr> = pi / 2"
proof -
  have h: "\<lparr>x2 = 1 / 2, y2 = 1 / 2\<rparr> \<noteq> \<lparr>x2 = 1 / 2, y2 = 0 :: real\<rparr>"
    "\<lparr>x2 = 0, y2 = 0\<rparr> \<noteq> \<lparr>x2 = 1 / 2, y2 = 0 :: real\<rparr>"
    by simp_all
  from angleHand_H_is_euclid_direction_formula [OF h] euclidDirectionAngle_example h
  show ?thesis by simp
qed

text \<open>
  The claim as it was stated, for both functions, fails for \<open>angleAt\<close> at
  \<open>A = (1/2, 1/2)\<close>, \<open>B = (1/2, 0)\<close>, \<open>C = (0, 0)\<close>: the raw formula gives a right angle,
  \<open>angleAt\<close> an acute one.
\<close>

theorem angleAt_H_counterexample:
  "angleAt H \<lparr>x2 = 1 / 2, y2 = 1 / 2\<rparr> \<lparr>x2 = 1 / 2, y2 = 0\<rparr> \<lparr>x2 = 0, y2 = 0\<rparr>
     \<noteq> euclidDirectionAngle \<lparr>x2 = 1 / 2, y2 = 1 / 2\<rparr> \<lparr>x2 = 1 / 2, y2 = 0\<rparr> \<lparr>x2 = 0, y2 = 0\<rparr>"
proof -
  define cb where "cb = cos (14 / 15 * arctan (1 / 3 :: real))"
  define sb where "sb = sin (14 / 15 * arctan (1 / 3 :: real))"
  define w where "w = sub2 \<lparr>x2 = 5 / 4 - sqrt 10 / 4 * cb, y2 = 1 / 4 - sqrt 10 / 4 * sb\<rparr>
                        \<lparr>x2 = 1 / 2, y2 = 0\<rparr>"
  have rc: "3 < sqrt 10 * cb" unfolding cb_def by (rule beta_bounds)
  have wx: "x2 w < 0" using rc by (simp add: w_def sub2_def)
  have "hypot2 w \<noteq> 0" using wx by (auto simp add: hypot2_def hypot_eq_0_iff)
  then have n: "0 < hypot2 w" using hypot_nonneg [of "x2 w" "y2 w"] by (simp add: hypot2_def)
  have d1: "norm2 w = mul2 w (1 / hypot2 w)" using n by (simp add: norm2_def Let_def)
  have pos: "0 < dot2 (norm2 w) \<lparr>x2 = - 1, y2 = 0\<rparr>"
    using wx n by (simp add: d1 dot2_def mul2_def divide_neg_pos)
  define D where "D = clamp (dot2 (norm2 w) \<lparr>x2 = - 1, y2 = 0\<rparr>) (- 1) 1"
  have D: "0 < D" "D \<le> 1" using pos by (auto simp add: D_def clamp_def max_def min_def)
  have at: "angleAt H \<lparr>x2 = 1 / 2, y2 = 1 / 2\<rparr> \<lparr>x2 = 1 / 2, y2 = 0\<rparr> \<lparr>x2 = 0, y2 = 0\<rparr> = arccos D"
    unfolding angleAt_def Let_def
    by (simp only: SpaceId.distinct if_False if_True refl geo_BA geo_BC_0 geo_BC_1 dir_BC
        D_def w_def cb_def sb_def)
  have "cos (arccos D) = D" using D by (intro cos_arccos) simp_all
  then have ne: "cos (arccos D) \<noteq> cos (pi / 2)" using D by simp
  have neq: "arccos D \<noteq> pi / 2"
  proof
    assume "arccos D = pi / 2"
    then have "cos (arccos D) = cos (pi / 2)" by (rule arg_cong)
    with ne show False by contradiction
  qed
  show ?thesis unfolding at euclidDirectionAngle_example by (fact neq)
qed




section \<open>The full line on the sphere\<close>

lemma hypot3d_nonneg: "0 \<le> hypot3d a b c"
  by (simp add: hypot3d_def)


lemma or1_pos: "0 \<le> v \<Longrightarrow> 0 < or1 v"
  by (simp add: or1_def)

lemma v3norm_pos_or1: "0 < or1 (v3norm w)"
  by (rule or1_pos) (simp add: v3norm_def hypot3d_nonneg)

lemma z3_v3unit: "z3 (v3unit w) = z3 w / or1 (v3norm w)"
  by (simp add: v3unit_def Let_def)



lemma z3_v3unit_zero_iff: "z3 (v3unit w) = 0 \<longleftrightarrow> z3 w = 0"
  using v3norm_pos_or1 [of w] by (simp add: z3_v3unit)



































lemma list_update_ends:
  assumes "2 \<le> length xs"
  shows "hd ((xs[0 := p])[length xs - 1 := q]) = p \<and> last ((xs[0 := p])[length xs - 1 := q]) = q"
proof -
  have ne: "(xs[0 := p])[length xs - 1 := q] \<noteq> []" using assms by auto
  have neq: "length xs - 1 \<noteq> 0" using assms by simp
  have "hd ((xs[0 := p])[length xs - 1 := q]) = ((xs[0 := p])[length xs - 1 := q]) ! 0"
    using ne by (rule hd_conv_nth)
  also have "\<dots> = (xs[0 := p]) ! 0" using neq by (rule nth_list_update_neq)
  also have "\<dots> = p" using assms by (intro nth_list_update_eq) auto
  finally have h: "hd ((xs[0 := p])[length xs - 1 := q]) = p" .
  have "last ((xs[0 := p])[length xs - 1 := q])
      = ((xs[0 := p])[length xs - 1 := q]) ! (length xs - 1)"
    using ne by (simp add: last_conv_nth)
  also have "\<dots> = q" using assms by (intro nth_list_update_eq) simp
  finally show ?thesis using h by simp
qed

lemma segment_result_ends:
  "hd (if 2 \<le> length (if ps \<noteq> [] then (ps[0 := p])[length ps - 1 := q] else ps)
       then (if ps \<noteq> [] then (ps[0 := p])[length ps - 1 := q] else ps) else [p, q]) = p
   \<and> last (if 2 \<le> length (if ps \<noteq> [] then (ps[0 := p])[length ps - 1 := q] else ps)
       then (if ps \<noteq> [] then (ps[0 := p])[length ps - 1 := q] else ps) else [p, q]) = q"
proof (cases "2 \<le> length ps")
  case True
  then have "ps \<noteq> []" by auto
  with True show ?thesis using list_update_ends [OF True, of p q] by simp
next
  case False
  then show ?thesis by simp
qed

text \<open>The fallback for lifts that the kernel takes for parallel is the segment from \<open>p\<close>
  to \<open>q\<close>, which starts on \<open>p\<close> and ends on \<open>q\<close>.\<close>

lemma geodesicSphereProjectedSegment_ends:
  "hd (geodesicSphereProjectedSegment p q steps) = p
   \<and> last (geodesicSphereProjectedSegment p q steps) = q"
  unfolding geodesicSphereProjectedSegment_def Let_def
  apply (split if_split)
  apply (intro conjI impI)
     apply simp
    apply simp
   apply (rule segment_result_ends [THEN conjunct1])
  apply (rule segment_result_ends [THEN conjunct2])
  done

lemma great_circle_near_parallel_fallback:
  assumes "v3norm (v3cross (liftToUpperHemisphere p) (liftToUpperHemisphere q)) < 1 / 10 ^ 10"
  shows "hd (geodesicLineThrough S p q steps) = p \<and> last (geodesicLineThrough S p q steps) = q"
  using assms geodesicSphereProjectedSegment_ends [of p q steps]
  unfolding geodesicLineThrough_def greatCircleProjectedClosed_def Let_def
  by (simp only: SpaceId.distinct if_False if_True refl)


end
